theory Spec2Isabelle
  imports Main "HOL-Library.Sublist"
begin

section \<open>The memory module (memory.js): values\<close>

text \<open>
  The module talks to two services: the inference service (one HTTP call per
  attempt of \<open>fetchWithCognitiveRetry\<close>) and the storage service (the Apps Script
  URL). What they answer is not decided by the module, so the model takes their
  answers from the environment: a \<open>world\<close> holds the outcomes of the successive
  calls, consumed in order, and records what the module does (requests, sleeps,
  updates of \<open>window\<close>) in a trace.

  Values parsed from the services are JSON values. Strings are lists of bytes and
  the letter-case functions act on ASCII letters. Numbers are integers, of a size
  that prints in decimal digits. The prompt texts sent to the inference service and
  the bodies of the storage requests are not modelled: a request is recorded by its
  label or its action, and building it is modelled where it can throw.
\<close>

datatype json =
    JNull
  | JBool bool
  | JNum int
  | JStr string
  | JArr "json list"
  | JObj "(string \<times> json) list"

text \<open>\<open>d.k\<close>: the property of an object; \<open>None\<close> is JavaScript's \<open>undefined\<close>.
  A value that is not an object has none of the properties this module reads.\<close>

fun property :: "json \<Rightarrow> string \<Rightarrow> json option" where
  "property (JObj kvs) k = map_of kvs k"
| "property _ k = None"

text \<open>Truthiness of a value (\<open>if (x)\<close>, \<open>x && y\<close>, \<open>x || y\<close>, \<open>!x\<close>).\<close>

fun truthy :: "json option \<Rightarrow> bool" where
  "truthy None = False"
| "truthy (Some JNull) = False"
| "truthy (Some (JBool b)) = b"
| "truthy (Some (JNum n)) = (n \<noteq> 0)"
| "truthy (Some (JStr s)) = (s \<noteq> [])"
| "truthy (Some (JArr xs)) = True"
| "truthy (Some (JObj kvs)) = True"

text \<open>\<open>typeof x === 'boolean'\<close>, \<open>typeof x === 'string'\<close>, \<open>Array.isArray(x)\<close>.\<close>

fun is_boolean :: "json option \<Rightarrow> bool" where
  "is_boolean (Some (JBool b)) = True"
| "is_boolean _ = False"

fun is_string :: "json option \<Rightarrow> bool" where
  "is_string (Some (JStr s)) = True"
| "is_string _ = False"

fun isArray :: "json option \<Rightarrow> bool" where
  "isArray (Some (JArr xs)) = True"
| "isArray _ = False"

fun is_object :: "json \<Rightarrow> bool" where
  "is_object (JObj kvs) = True"
| "is_object _ = False"

section \<open>Strings\<close>

text \<open>\<open>toLowerCase\<close>, \<open>toUpperCase\<close> and \<open>trim\<close>, on ASCII letters and ASCII white
  space.\<close>

definition is_upper :: "char \<Rightarrow> bool" where
  "is_upper c = (65 \<le> (of_char c :: nat) \<and> (of_char c :: nat) \<le> 90)"

definition is_lower :: "char \<Rightarrow> bool" where
  "is_lower c = (97 \<le> (of_char c :: nat) \<and> (of_char c :: nat) \<le> 122)"

definition lower_char :: "char \<Rightarrow> char" where
  "lower_char c = (if is_upper c then char_of ((of_char c :: nat) + 32) else c)"

definition upper_char :: "char \<Rightarrow> char" where
  "upper_char c = (if is_lower c then char_of ((of_char c :: nat) - 32) else c)"

definition toLowerCase :: "string \<Rightarrow> string" where
  "toLowerCase s = map lower_char s"

definition toUpperCase :: "string \<Rightarrow> string" where
  "toUpperCase s = map upper_char s"

definition is_space :: "char \<Rightarrow> bool" where
  "is_space c = (c \<in> set [CHR 0x20, CHR 0x09, CHR 0x0A, CHR 0x0B, CHR 0x0C, CHR 0x0D])"

definition trim :: "string \<Rightarrow> string" where
  "trim s = rev (dropWhile is_space (rev (dropWhile is_space s)))"

text \<open>\<open>s.includes(t)\<close>\<close>

definition str_includes :: "string \<Rightarrow> string \<Rightarrow> bool" where
  "str_includes s t = sublist t s"

text \<open>\<open>s.match(/[A-Z][a-z]+/g) || []\<close>\<close>

function match_capitalized :: "string \<Rightarrow> string list" where
  "match_capitalized [] = []"
| "match_capitalized (c # cs) =
     (if is_upper c \<and> takeWhile is_lower cs \<noteq> []
      then (c # takeWhile is_lower cs) # match_capitalized (dropWhile is_lower cs)
      else match_capitalized cs)"
  by pat_completeness auto
termination
  by (relation "measure length") (auto simp: length_dropWhile_le less_Suc_eq_le)

text \<open>\<open>s.split(c)\<close> with a separator of one character.\<close>

fun split_on :: "char \<Rightarrow> string \<Rightarrow> string list" where
  "split_on c [] = [[]]"
| "split_on c (x # xs) =
     (if x = c then [] # split_on c xs
      else (case split_on c xs of [] \<Rightarrow> [[x]] | w # ws \<Rightarrow> (x # w) # ws))"

text \<open>\<open>/^[a-zA-Z]+$/.test(w)\<close>\<close>

definition alphabetic :: "string \<Rightarrow> bool" where
  "alphabetic s = (s \<noteq> [] \<and> list_all (\<lambda>c. is_upper c \<or> is_lower c) s)"

section \<open>JSON.stringify\<close>

definition digit :: "nat \<Rightarrow> char" where
  "digit d = ''0123456789'' ! d"

fun show_nat :: "nat \<Rightarrow> string" where
  "show_nat n = (if n < 10 then [digit n] else show_nat (n div 10) @ [digit (n mod 10)])"

declare show_nat.simps [simp del]

definition show_int :: "int \<Rightarrow> string" where
  "show_int i = (if i < 0 then CHR ''-'' # show_nat (nat (- i)) else show_nat (nat i))"

definition hex_digit :: "nat \<Rightarrow> char" where
  "hex_digit d = ''0123456789abcdef'' ! d"

text \<open>The escapes of a string literal: the quote, the backslash and the control
  characters.\<close>

definition escape_char :: "char \<Rightarrow> string" where
  "escape_char c =
     (if c = CHR 0x22 then [CHR 0x5C, CHR 0x22]
      else if c = CHR 0x5C then [CHR 0x5C, CHR 0x5C]
      else if c = CHR 0x08 then [CHR 0x5C, CHR ''b'']
      else if c = CHR 0x0C then [CHR 0x5C, CHR ''f'']
      else if c = CHR 0x0A then [CHR 0x5C, CHR ''n'']
      else if c = CHR 0x0D then [CHR 0x5C, CHR ''r'']
      else if c = CHR 0x09 then [CHR 0x5C, CHR ''t'']
      else if (of_char c :: nat) < 32 then
        [CHR 0x5C, CHR ''u'', CHR ''0'', CHR ''0'',
         hex_digit ((of_char c :: nat) div 16), hex_digit ((of_char c :: nat) mod 16)]
      else [c])"

definition quote :: "string \<Rightarrow> string" where
  "quote s = CHR 0x22 # concat (map escape_char s) @ [CHR 0x22]"

text \<open>\<open>Array.prototype.join\<close> on strings.\<close>

fun join :: "string \<Rightarrow> string list \<Rightarrow> string" where
  "join sep [] = []"
| "join sep [x] = x"
| "join sep (x # y # ys) = x @ sep @ join sep (y # ys)"

fun stringify :: "json \<Rightarrow> string" where
  "stringify JNull = ''null''"
| "stringify (JBool b) = (if b then ''true'' else ''false'')"
| "stringify (JNum n) = show_int n"
| "stringify (JStr s) = quote s"
| "stringify (JArr xs) = ''['' @ join '','' (map stringify xs) @ '']''"
| "stringify (JObj kvs) =
     ''{'' @ join '','' (map (\<lambda>kv. quote (fst kv) @ '':'' @ stringify (snd kv)) kvs) @ ''}''"

section \<open>JavaScript conversions\<close>

text \<open>\<open>String(x)\<close>, as template literals and \<open>Array.prototype.join\<close> apply it.\<close>

fun toString :: "json \<Rightarrow> string" where
  "toString JNull = ''null''"
| "toString (JBool b) = (if b then ''true'' else ''false'')"
| "toString (JNum n) = show_int n"
| "toString (JStr s) = s"
| "toString (JArr xs) =
     join '','' (map (\<lambda>x. if x = JNull then [] else toString x) xs)"
| "toString (JObj kvs) = ''[object Object]''"

definition template :: "json option \<Rightarrow> string" where
  "template x = (case x of None \<Rightarrow> ''undefined'' | Some v \<Rightarrow> toString v)"

definition array_join :: "string \<Rightarrow> json list \<Rightarrow> string" where
  "array_join sep xs = join sep (map (\<lambda>x. if x = JNull then [] else toString x) xs)"

text \<open>The conversion to a string throws a TypeError on an object that has a property
  named \<open>toString\<close> of its own (a value parsed from JSON is not callable), and on an
  array that holds such an object. \<open>printable\<close> says that the conversion returns, and
  \<open>toString\<close> is its result then; \<open>undefined\<close> converts.\<close>

fun printable :: "json \<Rightarrow> bool" where
  "printable (JArr xs) = list_all printable xs"
| "printable (JObj kvs) = (map_of kvs ''toString'' = None)"
| "printable v = True"

definition converts :: "json option \<Rightarrow> bool" where
  "converts x = (case x of None \<Rightarrow> True | Some v \<Rightarrow> printable v)"

text \<open>The conversion to a number, as a comparison with a number applies it; \<open>None\<close> is
  \<open>NaN\<close>. The numbers of the model are the integers: a string converts when it spells
  a decimal integer, with an optional sign and with white space around it, and the
  empty string is 0; a string that spells a number in another way (a fraction, an
  exponent, a radix prefix, \<open>Infinity\<close>) is read as \<open>NaN\<close>, like a string that spells
  none. An array converts as its string does, an object to \<open>NaN\<close>.\<close>

definition digit_of :: "char \<Rightarrow> nat option" where
  "digit_of c =
     (if 48 \<le> (of_char c :: nat) \<and> (of_char c :: nat) \<le> 57
      then Some ((of_char c :: nat) - 48) else None)"

fun digits_value :: "nat \<Rightarrow> string \<Rightarrow> nat option" where
  "digits_value acc [] = Some acc"
| "digits_value acc (c # cs) =
     (case digit_of c of None \<Rightarrow> None | Some d \<Rightarrow> digits_value (10 * acc + d) cs)"

definition string_to_number :: "string \<Rightarrow> int option" where
  "string_to_number s =
     (case trim s of
        [] \<Rightarrow> Some 0
      | c # cs \<Rightarrow>
          if c = CHR ''-'' then
            (if cs = [] then None else map_option (\<lambda>n. - int n) (digits_value 0 cs))
          else if c = CHR ''+'' then
            (if cs = [] then None else map_option int (digits_value 0 cs))
          else map_option int (digits_value 0 (c # cs)))"

fun to_number :: "json option \<Rightarrow> int option" where
  "to_number None = None"
| "to_number (Some JNull) = Some 0"
| "to_number (Some (JBool b)) = Some (if b then 1 else 0)"
| "to_number (Some (JNum n)) = Some n"
| "to_number (Some (JStr s)) = string_to_number s"
| "to_number (Some (JArr xs)) = string_to_number (toString (JArr xs))"
| "to_number (Some (JObj kvs)) = None"

text \<open>\<open>x < n\<close> and \<open>x > n\<close> for an integer \<open>n\<close>: false where \<open>x\<close> converts to
  \<open>NaN\<close>.\<close>

definition less_than :: "json option \<Rightarrow> int \<Rightarrow> bool" where
  "less_than x n = (case to_number x of None \<Rightarrow> False | Some m \<Rightarrow> m < n)"

definition greater_than :: "json option \<Rightarrow> int \<Rightarrow> bool" where
  "greater_than x n = (case to_number x of None \<Rightarrow> False | Some m \<Rightarrow> m > n)"

text \<open>\<open>for (x of v)\<close>: the elements of an array, or the characters of a string; no other
  value parsed from JSON is iterable (\<open>None\<close>: a TypeError).\<close>

fun iterate :: "json \<Rightarrow> json list option" where
  "iterate (JArr xs) = Some xs"
| "iterate (JStr s) = Some (map (\<lambda>c. JStr [c]) s)"
| "iterate v = None"

text \<open>\<open>x || []\<close> where an array has been checked (\<open>Array.isArray\<close>) or is the only
  value that gets there: the elements of the array, and none for another value.\<close>

fun elements :: "json option \<Rightarrow> json list" where
  "elements (Some (JArr xs)) = xs"
| "elements _ = []"

text \<open>An object literal; a property whose value is \<open>undefined\<close> is left out, as
  \<open>JSON.stringify\<close> leaves it out.\<close>

definition object :: "(string \<times> json option) list \<Rightarrow> json" where
  "object kvs = JObj (concat (map (\<lambda>(k, v). case v of None \<Rightarrow> [] | Some x \<Rightarrow> [(k, x)]) kvs))"

text \<open>\<open>x || y\<close>\<close>

definition or_else :: "json option \<Rightarrow> json option \<Rightarrow> json option" where
  "or_else x y = (if truthy x then x else y)"

text \<open>\<open>lookupKeys.concat(v)\<close>: the elements of an array, or the value itself.\<close>

fun concat_value :: "json list \<Rightarrow> json \<Rightarrow> json list" where
  "concat_value ks (JArr xs) = ks @ xs"
| "concat_value ks v = ks @ [v]"

text \<open>\<open>x.length > n\<close>, where \<open>x\<close> is not \<open>null\<close> or \<open>undefined\<close>: a string and an
  array have their length, an object has the property of this name if it was given
  one, converted to a number, and a number or a boolean has none.\<close>

fun length_gt :: "json \<Rightarrow> int \<Rightarrow> bool" where
  "length_gt (JStr s) n = (int (length s) > n)"
| "length_gt (JArr xs) n = (int (length xs) > n)"
| "length_gt (JObj kvs) n = greater_than (map_of kvs ''length'') n"
| "length_gt _ n = False"

text \<open>\<open>excludeKeywords.some(ex => meta.includes(ex.toLowerCase()))\<close>, and the same
  test of the CHAT branch on the positive constraints; \<open>None\<close> where
  a keyword that is reached is not a string (\<open>toLowerCase\<close> is not a function).\<close>

fun some_excluded :: "string \<Rightarrow> json list \<Rightarrow> bool option" where
  "some_excluded meta [] = Some False"
| "some_excluded meta (JStr ex # rest) =
     (if str_includes meta (toLowerCase ex) then Some True else some_excluded meta rest)"
| "some_excluded meta (v # rest) = None"

text \<open>\<open>o.k = v\<close>: on an object the property is set, keeping its place or added at the
  end; on a primitive value the assignment has no effect.\<close>

fun assign :: "string \<Rightarrow> json \<Rightarrow> (string \<times> json) list \<Rightarrow> (string \<times> json) list" where
  "assign k v [] = [(k, v)]"
| "assign k v (kv # kvs) = (if fst kv = k then (k, v) # kvs else kv # assign k v kvs)"

fun set_property :: "json \<Rightarrow> string \<Rightarrow> json \<Rightarrow> json" where
  "set_property (JObj kvs) k v = JObj (assign k v kvs)"
| "set_property x k v = x"

section \<open>The environment\<close>

text \<open>One call of \<open>fetch\<close> to the inference service: it rejects (network error, or
  the abort at the 15 s deadline), or it resolves to a response with a status and a
  body, where \<open>response.json()\<close> rejects (\<open>None\<close>) or gives the data.\<close>

datatype http = Rejected | Response nat "json option"

text \<open>One awaited request to the storage service: \<open>fetch\<close> or \<open>.json()\<close> rejects, or
  the reply is read. The replies have the shapes of the storage contract,
  \<open>{found, relevant_memories}\<close> and \<open>{found, files, debug_query}\<close>; a field
  that is missing is \<open>None\<close>.\<close>

datatype memory = MemText string | MemFact "string option" "string option"

record drive_file =
  name :: string
  description :: "string option"

record store_reply =
  found :: bool
  relevant_memories :: "memory list option"
  files :: "drive_file list option"
  debug_query :: "string option"

datatype store_result = StoreRejected | StoreReply store_reply

datatype event =
    Inference string
  | Sleep nat
  | StoreAwait string
  | StoreSend string
  | StoreAtomic json
  | UpdateGraph "json list"

record world =
  inference :: "http list"
  storage :: "store_result list"
  json_parse :: "string \<Rightarrow> json option"
  appsScriptUrl :: "string option"
  updateGraphData :: bool
  currentMood :: "string option"
  lastRetrievedMemories :: "string option"
  trace :: "event list"

definition emit :: "event \<Rightarrow> world \<Rightarrow> world" where
  "emit e w = w\<lparr>trace := trace w @ [e]\<rparr>"

text \<open>The next outcome of the inference service; a script that has run out
  answers as an unreachable service does.\<close>

definition fetch_inference :: "string \<Rightarrow> world \<Rightarrow> http \<times> world" where
  "fetch_inference label w =
     ((case inference w of [] \<Rightarrow> Rejected | h # hs \<Rightarrow> h),
      emit (Inference label) (w\<lparr>inference := tl (inference w)\<rparr>))"

definition configured :: "world \<Rightarrow> bool" where
  "configured w = (case appsScriptUrl w of None \<Rightarrow> False | Some url \<Rightarrow> url \<noteq> [])"

text \<open>An awaited request to the storage service, with \<open>.json()\<close> on its response.\<close>

definition store_fetch :: "string \<Rightarrow> world \<Rightarrow> store_result \<times> world" where
  "store_fetch action w =
     ((case storage w of [] \<Rightarrow> StoreRejected | r # rs \<Rightarrow> r),
      emit (StoreAwait action) (w\<lparr>storage := tl (storage w)\<rparr>))"

section \<open>fetchWithCognitiveRetry\<close>

definition MAX_RETRIES :: nat where
  "MAX_RETRIES = 3"

text \<open>What \<open>fetchWithCognitiveRetry\<close> returns: on success \<open>{raw, parsed, cleaned}\<close>,
  after exhaustion \<open>{parsed, cleaned}\<close> (no \<open>raw\<close>).\<close>

record retry_result =
  raw :: "json option"
  parsed :: json
  cleaned :: json

text \<open>The errors thrown inside the \<open>try\<close> block of one attempt.\<close>

datatype failure =
    FetchFailed
  | CriticalAuthError nat
  | ApiError nat
  | BodyFailed
  | InvalidJson
  | ValidationFailed
  | ValidatorThrew

text \<open>\<open>response.ok\<close>: the status is in the range 200-299.\<close>

definition response_ok :: "nat \<Rightarrow> bool" where
  "response_ok status = (200 \<le> status \<and> status \<le> 299)"

text \<open>\<open>data.choices[0].message.content\<close>: \<open>None\<close> where reading the path throws a
  TypeError (a property of \<open>undefined\<close> or \<open>null\<close> is read); else the content, which
  is \<open>undefined\<close> (\<open>Some None\<close>) where the message has no such property. The content
  is any JSON value: nothing makes it a string.\<close>

fun index0 :: "json option \<Rightarrow> json option" where
  "index0 (Some (JArr (x # xs))) = Some x"
| "index0 (Some (JObj kvs)) = map_of kvs ''0''"
| "index0 (Some (JStr (c # cs))) = Some (JStr [c])"
| "index0 _ = None"

definition message_content :: "json \<Rightarrow> json option option" where
  "message_content data =
     (case index0 (property data ''choices'') of
        None \<Rightarrow> None
      | Some choice \<Rightarrow>
          (case property choice ''message'' of
             None \<Rightarrow> None
           | Some JNull \<Rightarrow> None
           | Some message \<Rightarrow> Some (property message ''content'')))"

text \<open>A validator function: \<open>None\<close> when it throws, else the truthiness of what it
  returns.\<close>

type_synonym validator = "json \<Rightarrow> bool option"

text \<open>The body of the \<open>try\<close> block, after \<open>fetch\<close> has settled. \<open>JSON.parse\<close> is the
  platform's: it is a parameter, \<open>None\<close> where it throws. It converts its argument to
  a string first: a content that is not a string is parsed through its conversion
  (which throws where the content is not printable), and the text \<open>undefined\<close> of a
  missing content is no JSON text. The result holds the content as it came.\<close>

definition attempt ::
  "validator \<Rightarrow> (string \<Rightarrow> json option) \<Rightarrow> http \<Rightarrow> failure + retry_result" where
  "attempt validatorFn JSON_parse h =
     (case h of
        Rejected \<Rightarrow> Inl FetchFailed
      | Response status body \<Rightarrow>
          if \<not> response_ok status then
            (if status = 401 \<or> status = 403 then Inl (CriticalAuthError status)
             else Inl (ApiError status))
          else
            (case body of
               None \<Rightarrow> Inl BodyFailed
             | Some data \<Rightarrow>
                 (case message_content data of
                    None \<Rightarrow> Inl InvalidJson
                  | Some None \<Rightarrow> Inl InvalidJson
                  | Some (Some content) \<Rightarrow>
                      if \<not> printable content then Inl InvalidJson
                      else
                        (case JSON_parse (toString content) of
                           None \<Rightarrow> Inl InvalidJson
                         | Some parsedContent \<Rightarrow>
                             (case validatorFn parsedContent of
                                None \<Rightarrow> Inl ValidatorThrew
                              | Some False \<Rightarrow> Inl ValidationFailed
                              | Some True \<Rightarrow>
                                  Inr \<lparr>raw = Some data, parsed = parsedContent,
                                       cleaned = content\<rparr>)))))"

text \<open>The "Safe Mode" object returned after the last failed attempt.\<close>

definition safe_mode :: retry_result where
  "safe_mode =
     \<lparr>raw = None,
      parsed = JObj [(''mood'', JStr ''NEUTRAL''), (''response'', JStr ''...'')],
      cleaned = JStr ''{\"mood\":\"NEUTRAL\",\"response\":\"...\"}''\<rparr>"

text \<open>The \<open>while (attempts < MAX_RETRIES)\<close> loop, with its two variables. Every error
  of the \<open>try\<close> block reaches the one \<open>catch\<close>. A loop that ends without \<open>return\<close>
  gives \<open>undefined\<close> (\<open>None\<close>).\<close>

function retry_loop ::
  "validator \<Rightarrow> string \<Rightarrow> nat \<Rightarrow> nat \<Rightarrow> world \<Rightarrow> retry_result option \<times> world" where
  "retry_loop validatorFn label attempts delay w =
     (if attempts < MAX_RETRIES then
        (case attempt validatorFn (json_parse w) (fst (fetch_inference label w)) of
           Inr r \<Rightarrow> (Some r, snd (fetch_inference label w))
         | Inl error \<Rightarrow>
             (if MAX_RETRIES \<le> attempts + 1 then
                (Some safe_mode, snd (fetch_inference label w))
              else
                retry_loop validatorFn label (attempts + 1) (delay * 2)
                  (emit (Sleep delay) (snd (fetch_inference label w)))))
      else (None, w))"
  by pat_completeness auto
termination
  by (relation "measure (\<lambda>(v, l, attempts, d, w). MAX_RETRIES - attempts)") auto

definition fetchWithCognitiveRetry ::
  "validator \<Rightarrow> string \<Rightarrow> world \<Rightarrow> retry_result option \<times> world" where
  "fetchWithCognitiveRetry validatorFn label w = retry_loop validatorFn label 0 1000 w"

text \<open>The validator functions passed at the call sites. Each reads a property of the
  parsed content, which throws a TypeError when the content is \<open>null\<close>.\<close>

definition reading :: "(json \<Rightarrow> bool) \<Rightarrow> validator" where
  "reading f d = (if d = JNull then None else Some (f d))"

definition valid_DirectorAI :: validator where
  "valid_DirectorAI = reading (\<lambda>d. truthy (property d ''intent''))"

definition valid_DirectorFilter :: validator where
  "valid_DirectorFilter = reading (\<lambda>d. isArray (property d ''matches''))"

definition valid_DirectorContextChat :: validator where
  "valid_DirectorContextChat = reading (\<lambda>d. truthy (property d ''response''))"

definition valid_DirectorDedup :: validator where
  "valid_DirectorDedup = reading (\<lambda>d. is_boolean (property d ''is_duplicate''))"

definition valid_DirectorAmbiguity :: validator where
  "valid_DirectorAmbiguity = reading (\<lambda>d. truthy (property d ''status''))"

definition valid_HybridAnalysis :: validator where
  "valid_HybridAnalysis =
     reading (\<lambda>d. isArray (property d ''search_keywords'')
                  \<or> is_string (property d ''search_keywords''))"

definition valid_Timekeeper :: validator where
  "valid_Timekeeper = reading (\<lambda>d. is_boolean (property d ''valid''))"

definition valid_Interceptor :: validator where
  "valid_Interceptor = reading (\<lambda>d. truthy (property d ''response''))"

definition valid_Generation :: validator where
  "valid_Generation =
     reading (\<lambda>d. truthy (property d ''response'') \<and> truthy (property d ''mood''))"

definition valid_RedundancyCheck :: validator where
  "valid_RedundancyCheck = reading (\<lambda>d. is_boolean (property d ''is_redundant''))"

definition valid_CorrectionGeneration :: validator where
  "valid_CorrectionGeneration = reading (\<lambda>d. truthy (property d ''response''))"

definition valid_DedupRefine :: validator where
  "valid_DedupRefine = reading (\<lambda>d. truthy (property d ''status''))"

definition validators :: "validator list" where
  "validators =
     [valid_DirectorAI, valid_DirectorFilter, valid_DirectorContextChat, valid_DirectorDedup,
      valid_DirectorAmbiguity, valid_HybridAnalysis, valid_Timekeeper, valid_Interceptor,
      valid_Generation, valid_RedundancyCheck, valid_CorrectionGeneration, valid_DedupRefine]"

section \<open>processMemoryChat\<close>

datatype 'a promise = Rejects | Resolves 'a

record reply =
  directorAction :: "string option"
  deckKeywords :: "json list option"
  reply_files :: "drive_file list option"
  reply_debug_query :: "string option"
  content :: json

text \<open>\<open>{ choices: [{ message: { content: JSON.stringify({...}) } }] }\<close>\<close>

definition message :: "(string \<times> json option) list \<Rightarrow> reply" where
  "message kvs =
     \<lparr>directorAction = None, deckKeywords = None, reply_files = None,
      reply_debug_query = None, content = JStr (stringify (object kvs))\<rparr>"

text \<open>\<open>res.found && res.relevant_memories.length > 0\<close>: it throws where the list is
  missing.\<close>

datatype lookup = LookupThrew | NoMemories | Memories "memory list"

definition found_memories :: "store_reply \<Rightarrow> lookup" where
  "found_memories res =
     (if found res then
        (case relevant_memories res of
           None \<Rightarrow> LookupThrew
         | Some ms \<Rightarrow> if length ms > 0 then Memories ms else NoMemories)
      else NoMemories)"

subsection \<open>Director mode, intent CHAT\<close>

fun entity :: "memory \<Rightarrow> string option" where
  "entity (MemFact e f) = e"
| "entity (MemText s) = None"

text \<open>The entities of the memories, in the order of a \<open>Set\<close>.\<close>

fun uniq :: "'a list \<Rightarrow> 'a list" where
  "uniq [] = []"
| "uniq (x # xs) = x # filter (\<lambda>y. y \<noteq> x) (uniq xs)"

definition foundEntities :: "memory list \<Rightarrow> string list" where
  "foundEntities allMemories =
     uniq (concat (map (\<lambda>m. case entity m of None \<Rightarrow> [] | Some e \<Rightarrow> if e \<noteq> [] then [e] else [])
                       allMemories))"

text \<open>\<open>Array.from(foundEntities).filter(e => !aiRes.positive_constraints.includes(e))\<close>:
  on an array the entity is looked up among the elements, on a string it is looked up
  as a substring; another value has no \<open>includes\<close> (\<open>None\<close>: a TypeError, where there
  is an entity to test).\<close>

definition unlisted :: "json \<Rightarrow> string list \<Rightarrow> string list option" where
  "unlisted positive_constraints entities =
     (case positive_constraints of
        JArr ks \<Rightarrow> Some (filter (\<lambda>e. JStr e \<notin> set ks) entities)
      | JStr s \<Rightarrow> Some (filter (\<lambda>e. \<not> str_includes s e) entities)
      | _ \<Rightarrow> if entities = [] then Some [] else None)"

text \<open>\<open>allMemories.find(m => m.Entity === a)?.Fact || ""\<close>\<close>

definition fact_of :: "memory list \<Rightarrow> string \<Rightarrow> string" where
  "fact_of allMemories a =
     (case find (\<lambda>m. entity m = Some a) allMemories of
        Some (MemFact e (Some f)) \<Rightarrow> f
      | _ \<Rightarrow> [])"

text \<open>The score of the comparator,
  \<open>aiRes.positive_constraints.some(k => mem.toLowerCase().includes(k.toLowerCase()))\<close>;
  \<open>None\<close> where it throws: only an array has \<open>some\<close>.\<close>

definition score :: "json \<Rightarrow> string \<Rightarrow> bool option" where
  "score positive_constraints mem =
     (case positive_constraints of
        JArr ks \<Rightarrow> some_excluded (toLowerCase mem) ks
      | _ \<Rightarrow> None)"

text \<open>The drill-down targets: the entities that are not among the constraints, sorted
  by score. The comparator runs when there are two targets or more, and a sort
  compares every element at least once, computing its score: the sort throws (\<open>None\<close>)
  when the score of a target does. The order it gives and \<open>slice(0, 15)\<close> bear on a
  list that is only sent in a request: they keep an empty list empty and a non-empty
  one non-empty.\<close>

definition drillDownTargets :: "json \<Rightarrow> memory list \<Rightarrow> string list option" where
  "drillDownTargets positive_constraints allMemories =
     (case unlisted positive_constraints (foundEntities allMemories) of
        None \<Rightarrow> None
      | Some targets \<Rightarrow>
          if length targets \<ge> 2
             \<and> list_ex (\<lambda>e. score positive_constraints (fact_of allMemories e) = None) targets
          then None else Some targets)"

text \<open>The drill-down request; \<open>False\<close> when it throws.\<close>

definition drill_down :: "string list \<Rightarrow> world \<Rightarrow> bool \<times> world" where
  "drill_down targets w =
     (if length targets > 0 then
        (case store_fetch ''retrieve_director_memory'' w of
           (StoreRejected, w1) \<Rightarrow> (False, w1)
         | (StoreReply drillRes, w1) \<Rightarrow> (found_memories drillRes \<noteq> LookupThrew, w1))
      else (True, w))"

definition chat_answer :: "json list \<Rightarrow> retry_result \<Rightarrow> reply" where
  "chat_answer validMatches secondPass =
     (message [(''response'', property (parsed secondPass) ''response''),
               (''mood'', Some (JStr ''CRYPTIC''))])
     \<lparr>directorAction := (if length validMatches > 0 then Some ''SHOW_DECKS'' else None),
      deckKeywords := (if length validMatches > 0 then Some validMatches else None)\<rparr>"

definition no_records :: "json list \<Rightarrow> reply" where
  "no_records positive_constraints =
     message [(''response'', Some (JStr (''I searched the archives for ''
                 @ array_join '', '' positive_constraints @ '' but found no records.''))),
              (''mood'', Some (JStr ''SAD''))]"

text \<open>The \<open>try\<close> block of the CHAT branch, entered with constraints that are
  printable: the reply it returns, or \<open>None\<close> when it throws. Only an array has
  \<open>join\<close>. The matches of the filter are an array (the validator checks it) or, after
  the "Safe Mode" object, \<open>[]\<close>; the template that logs them converts them.\<close>

definition chat_lookup :: "json \<Rightarrow> world \<Rightarrow> reply option \<times> world" where
  "chat_lookup positive_constraints w =
     (case store_fetch ''retrieve_director_memory'' w of
        (StoreRejected, w1) \<Rightarrow> (None, w1)
      | (StoreReply contextRes, w1) \<Rightarrow>
          (case found_memories contextRes of
             LookupThrew \<Rightarrow> (None, w1)
           | NoMemories \<Rightarrow>
               (case positive_constraints of
                  JArr ks \<Rightarrow> (Some (no_records ks), w1)
                | _ \<Rightarrow> (None, w1))
           | Memories allMemories \<Rightarrow>
               (case drillDownTargets positive_constraints allMemories of
                  None \<Rightarrow> (None, w1)
                | Some targets \<Rightarrow>
                    (case drill_down targets w1 of
                       (False, w2) \<Rightarrow> (None, w2)
                     | (True, w2) \<Rightarrow>
                         (case fetchWithCognitiveRetry valid_DirectorFilter ''DirectorFilter'' w2 of
                            (None, w3) \<Rightarrow> (None, w3)
                          | (Some filterCheck, w3) \<Rightarrow>
                              if \<not> list_all printable
                                     (elements (property (parsed filterCheck) ''matches''))
                              then (None, w3)
                              else
                                (case fetchWithCognitiveRetry valid_DirectorContextChat
                                        ''DirectorContextChat'' w3 of
                                   (None, w4) \<Rightarrow> (None, w4)
                                 | (Some secondPass, w4) \<Rightarrow>
                                     (Some (chat_answer
                                        (elements (property (parsed filterCheck) ''matches''))
                                        secondPass), w4)))))))"

definition need_specifics :: reply where
  "need_specifics =
     message [(''response'',
                 Some (JStr ''I need more specific names or traits to search the archive.'')),
              (''mood'', Some (JStr ''CRYPTIC''))]"

text \<open>The CHAT branch. The guard is
  \<open>aiRes.positive_constraints && aiRes.positive_constraints.length > 0 && appsScriptUrl\<close>,
  which a string that is not empty passes as an array does; the template that logs the
  constraints converts them before the \<open>try\<close> block.\<close>

definition director_chat :: "json \<Rightarrow> world \<Rightarrow> reply promise \<times> world" where
  "director_chat aiRes w =
     (if truthy (property aiRes ''positive_constraints'')
         \<and> length_gt (the (property aiRes ''positive_constraints'')) 0 \<and> configured w then
        (if \<not> printable (the (property aiRes ''positive_constraints'')) then (Rejects, w)
         else
           (case chat_lookup (the (property aiRes ''positive_constraints'')) w of
              (Some r, w1) \<Rightarrow> (Resolves r, w1)
            | (None, w1) \<Rightarrow> (Resolves need_specifics, w1)))
      else (Resolves need_specifics, w))"

subsection \<open>Director mode, intent STORE\<close>

text \<open>The lookup keys; \<open>None\<close> where \<open>fact_to_store.match\<close> is not a function.\<close>

text \<open>\<open>[...new Set(xs)]\<close> on values: equal strings, numbers, booleans or \<open>null\<close> are one
  element; an object or an array is the same as itself only, and each one that
  \<open>JSON.parse\<close> made is another.\<close>

fun primitive :: "json \<Rightarrow> bool" where
  "primitive (JArr xs) = False"
| "primitive (JObj kvs) = False"
| "primitive v = True"

fun uniq_values :: "json list \<Rightarrow> json list" where
  "uniq_values [] = []"
| "uniq_values (x # xs) = x # filter (\<lambda>y. \<not> (primitive x \<and> y = x)) (uniq_values xs)"

definition lookupKeys :: "json \<Rightarrow> json list option" where
  "lookupKeys aiRes =
     (let keys1 = (if truthy (property aiRes ''entity_name'')
                   then [the (property aiRes ''entity_name'')] else []);
          keys2 = (if truthy (property aiRes ''positive_constraints'')
                   then concat_value keys1 (the (property aiRes ''positive_constraints''))
                   else keys1)
      in if length keys2 = 0 \<and> truthy (property aiRes ''fact_to_store'') then
           (case property aiRes ''fact_to_store'' of
              Some (JStr factText) \<Rightarrow>
                Some (filter (\<lambda>k. truthy (Some k) \<and> length_gt k 1)
                        (uniq_values (map JStr (match_capitalized factText))))
            | _ \<Rightarrow> None)
         else Some (filter (\<lambda>k. truthy (Some k) \<and> length_gt k 1) (uniq_values keys2)))"

record store_verdict =
  isDuplicate :: bool
  isContradiction :: bool
  contradictionWarning :: "json option"

definition no_verdict :: store_verdict where
  "no_verdict = \<lparr>isDuplicate = False, isContradiction = False,
                  contradictionWarning = Some (JStr [])\<rparr>"

text \<open>The \<open>try\<close> block of the STORE branch; an error leaves the flags as they are.\<close>

definition store_check :: "json list \<Rightarrow> world \<Rightarrow> store_verdict \<times> world" where
  "store_check keys w =
     (if length keys > 0 then
        (case store_fetch ''retrieve_director_memory'' w of
           (StoreRejected, w1) \<Rightarrow> (no_verdict, w1)
         | (StoreReply checkRes, w1) \<Rightarrow>
             (case found_memories checkRes of
                Memories ms \<Rightarrow>
                  (case fetchWithCognitiveRetry valid_DirectorDedup ''DirectorDedup'' w1 of
                     (None, w2) \<Rightarrow> (no_verdict, w2)
                   | (Some dedupCheck, w2) \<Rightarrow>
                       (\<lparr>isDuplicate = truthy (property (parsed dedupCheck) ''is_duplicate''),
                         isContradiction =
                           truthy (property (parsed dedupCheck) ''is_contradiction''),
                         contradictionWarning =
                           (if truthy (property (parsed dedupCheck) ''is_contradiction'')
                            then property (parsed dedupCheck) ''warning_message''
                            else Some (JStr []))\<rparr>, w2))
              | _ \<Rightarrow> (no_verdict, w1)))
      else (no_verdict, w))"

definition director_store :: "json \<Rightarrow> world \<Rightarrow> reply promise \<times> world" where
  "director_store aiRes w =
     (case lookupKeys aiRes of
        None \<Rightarrow> (Rejects, w)
      | Some keys \<Rightarrow>
          (case store_check keys w of
             (verdict, w1) \<Rightarrow>
               if isDuplicate verdict then
                 (Resolves (message
                    [(''response'', Some (JStr ''I already have that recorded in the archives.'')),
                     (''mood'', Some (JStr ''NEUTRAL''))]), w1)
               else if isContradiction verdict then
                 (Resolves (message
                    [(''response'', Some (JStr (template (contradictionWarning verdict)
                                                @ '' Shall I overwrite the old data?''))),
                     (''mood'', Some (JStr ''QUESTION''))]), w1)
               else
                 (Resolves (message
                    [(''response'', or_else (property aiRes ''response'')
                                     (Some (JStr ''Database Updated.'')))]),
                  emit (StoreSend ''store_director_fact'') w1)))"

subsection \<open>Director mode, intent SEARCH\<close>

text \<open>\<open>(f.name + " " + (f.description || "")).toLowerCase()\<close>\<close>

definition file_meta :: "drive_file \<Rightarrow> string" where
  "file_meta f =
     toLowerCase (name f @ '' '' @ (case description f of None \<Rightarrow> [] | Some d \<Rightarrow> d))"

fun filter_files :: "json list \<Rightarrow> drive_file list \<Rightarrow> drive_file list option" where
  "filter_files excludeKeywords [] = Some []"
| "filter_files excludeKeywords (f # fs) =
     (case some_excluded (file_meta f) excludeKeywords of
        None \<Rightarrow> None
      | Some hit \<Rightarrow>
          (case filter_files excludeKeywords fs of
             None \<Rightarrow> None
           | Some kept \<Rightarrow> Some (if hit then kept else f # kept)))"

text \<open>The client-side enforcement of the negative constraints, for exclusions that
  are an array; \<open>None\<close> where it throws.\<close>

definition negative_filter :: "json list \<Rightarrow> store_reply \<Rightarrow> store_reply option" where
  "negative_filter excludeKeywords searchRes =
     (if found searchRes \<and> length excludeKeywords > 0 then
        (case files searchRes of
           None \<Rightarrow> None
         | Some original \<Rightarrow>
             (case filter_files excludeKeywords original of
                None \<Rightarrow> None
              | Some kept \<Rightarrow>
                  Some (searchRes\<lparr>files := Some kept,
                                  found := \<not> (length kept = 0 \<and> length original > 0)\<rparr>)))
      else Some searchRes)"

definition cooperative_fallback :: "json list \<Rightarrow> reply" where
  "cooperative_fallback finalKeywords =
     \<lparr>directorAction = Some ''SHOW_DECKS'', deckKeywords = Some finalKeywords,
      reply_files = Some [], reply_debug_query = None,
      content = JStr (stringify (object
        [(''response'', Some (JStr (''I couldn't find a single scene with BOTH ''
            @ array_join '' and '' finalKeywords
            @ ''. However, I can likely access their individual footage. Which one should I prioritize?''))),
         (''mood'', Some (JStr ''QUESTION''))]))\<rparr>"

definition play_media :: "json \<Rightarrow> store_reply \<Rightarrow> reply" where
  "play_media aiRes searchRes =
     \<lparr>directorAction = Some ''PLAY_MEDIA'', deckKeywords = None,
      reply_files = files searchRes, reply_debug_query = debug_query searchRes,
      content = JStr (stringify (object
        [(''response'',
            (if found searchRes
             then or_else (property aiRes ''response'') (Some (JStr ''Archive accessed.''))
             else Some (JStr ''No matching footage found.''))),
         (''mood'', Some (JStr (if found searchRes then ''CRYPTIC'' else ''SAD'')))]))\<rparr>"

text \<open>The reply of the branch, for final keywords that are an array.\<close>

definition search_reply :: "json \<Rightarrow> json list \<Rightarrow> store_reply \<Rightarrow> reply" where
  "search_reply aiRes finalKeywords searchRes =
     (if \<not> found searchRes \<and> length finalKeywords > 1 then cooperative_fallback finalKeywords
      else play_media aiRes searchRes)"

text \<open>The two lists of the SEARCH branch are \<open>aiRes.positive_constraints || []\<close> and
  \<open>aiRes.negative_constraints || []\<close>: the value of the field where it is truthy,
  whatever it is.\<close>

definition or_empty :: "json option \<Rightarrow> json" where
  "or_empty x = the (or_else x (Some (JArr [])))"

text \<open>The filter with exclusions of any kind. A value that is not an array has no
  \<open>some\<close>: the callback of the filter throws on the first file (\<open>None\<close>), and a list
  without files stays as it is.\<close>

definition enforce_exclusions :: "json \<Rightarrow> store_reply \<Rightarrow> store_reply option" where
  "enforce_exclusions excludeKeywords searchRes =
     (case excludeKeywords of
        JArr exs \<Rightarrow> negative_filter exs searchRes
      | _ \<Rightarrow>
          if found searchRes \<and> length_gt excludeKeywords 0 then
            (case files searchRes of
               None \<Rightarrow> None
             | Some original \<Rightarrow> if original = [] then Some searchRes else None)
          else Some searchRes)"

text \<open>The reply with final keywords of any kind. A value that is not an array has no
  \<open>join\<close>: the cooperative fallback throws on it (\<open>None\<close>).\<close>

definition final_reply :: "json \<Rightarrow> json \<Rightarrow> store_reply \<Rightarrow> reply option" where
  "final_reply aiRes finalKeywords searchRes =
     (case finalKeywords of
        JArr ks \<Rightarrow> Some (search_reply aiRes ks searchRes)
      | _ \<Rightarrow>
          if \<not> found searchRes \<and> length_gt finalKeywords 1 then None
          else Some (play_media aiRes searchRes))"

text \<open>The ambiguity check: it rejects, returns the clarification question, or gives
  the final keywords. The prompt joins the keywords, which throws where they are not
  an array or hold a value that is not printable. The resolved names replace the
  keywords where their \<open>length\<close> is positive, whatever they are.\<close>

definition resolve_keywords :: "json \<Rightarrow> world \<Rightarrow> (reply + json) promise \<times> world" where
  "resolve_keywords finalKeywords w =
     (if length_gt finalKeywords 0 then
        (case store_fetch ''retrieve_director_memory'' w of
           (StoreRejected, w1) \<Rightarrow> (Rejects, w1)
         | (StoreReply identityRes, w1) \<Rightarrow>
             (case found_memories identityRes of
                LookupThrew \<Rightarrow> (Rejects, w1)
              | NoMemories \<Rightarrow> (Resolves (Inr finalKeywords), w1)
              | Memories ms \<Rightarrow>
                  if \<not> isArray (Some finalKeywords) \<or> \<not> printable finalKeywords
                  then (Rejects, w1)
                  else
                  (case fetchWithCognitiveRetry valid_DirectorAmbiguity ''DirectorAmbiguity'' w1 of
                     (None, w2) \<Rightarrow> (Rejects, w2)
                   | (Some ambiguityCheck, w2) \<Rightarrow>
                       if property (parsed ambiguityCheck) ''status'' = Some (JStr ''AMBIGUOUS'')
                       then (Resolves (Inl (message
                               [(''response'',
                                   property (parsed ambiguityCheck) ''clarification_question''),
                                (''mood'', Some (JStr ''QUESTION''))])), w2)
                       else if property (parsed ambiguityCheck) ''status''
                                 = Some (JStr ''RESOLVED'')
                       then
                         (case property (parsed ambiguityCheck) ''resolved_names'' of
                            None \<Rightarrow> (Rejects, w2)
                          | Some JNull \<Rightarrow> (Rejects, w2)
                          | Some names \<Rightarrow>
                              (Resolves (Inr (if length_gt names 0 then names
                                              else finalKeywords)), w2))
                       else (Resolves (Inr finalKeywords), w2))))
      else (Resolves (Inr finalKeywords), w))"

text \<open>The SEARCH branch. The template that logs the two lists converts them before the
  search request.\<close>

definition director_search :: "json \<Rightarrow> world \<Rightarrow> reply promise \<times> world" where
  "director_search aiRes w =
     (case resolve_keywords (or_empty (property aiRes ''positive_constraints'')) w of
        (Rejects, w1) \<Rightarrow> (Rejects, w1)
      | (Resolves (Inl question), w1) \<Rightarrow> (Resolves question, w1)
      | (Resolves (Inr finalKeywords), w1) \<Rightarrow>
          if \<not> printable finalKeywords
             \<or> \<not> printable (or_empty (property aiRes ''negative_constraints''))
          then (Rejects, w1)
          else
          (case store_fetch ''director_search'' w1 of
             (StoreRejected, w2) \<Rightarrow> (Rejects, w2)
           | (StoreReply searchRes, w2) \<Rightarrow>
               (case enforce_exclusions (or_empty (property aiRes ''negative_constraints''))
                       searchRes of
                  None \<Rightarrow> (Rejects, w2)
                | Some filtered \<Rightarrow>
                    (case final_reply aiRes finalKeywords filtered of
                       None \<Rightarrow> (Rejects, w2)
                     | Some r \<Rightarrow> (Resolves r, w2)))))"

subsection \<open>Director mode\<close>

text \<open>The branch classifies the intent and dispatches on it. The bridge from
  pronouns and short queries to the entities of the last assistant message only
  extends the prompt. The template that logs the intent converts it.\<close>

definition director_mode :: "world \<Rightarrow> reply promise \<times> world" where
  "director_mode w =
     (case fetchWithCognitiveRetry valid_DirectorAI ''DirectorAI'' w of
        (None, w1) \<Rightarrow> (Rejects, w1)
      | (Some res, w1) \<Rightarrow>
          if \<not> converts (property (parsed res) ''intent'') then (Rejects, w1)
          else if property (parsed res) ''intent'' = Some (JStr ''CHAT'')
          then director_chat (parsed res) w1
          else if property (parsed res) ''intent'' = Some (JStr ''STORE'') \<and> configured w1
          then director_store (parsed res) w1
          else if property (parsed res) ''intent'' = Some (JStr ''SEARCH'') \<and> configured w1
          then director_search (parsed res) w1
          else (Resolves (message [(''response'', property (parsed res) ''response''),
                                   (''mood'', Some (JStr ''CRYPTIC''))]), w1))"

subsection \<open>Standard mode: analysis\<close>

text \<open>Step 1: the analysis is the parsed result, with keywords given as one string
  split at the commas; it stays the empty analysis when reading the result throws.\<close>

definition empty_analysis :: json where
  "empty_analysis = JObj [(''search_keywords'', JArr []), (''entries'', JArr [])]"

definition normalize_keywords :: "json \<Rightarrow> json" where
  "normalize_keywords analysis =
     (case property analysis ''search_keywords'' of
        Some (JStr s) \<Rightarrow>
          set_property analysis ''search_keywords''
            (JArr (map (\<lambda>k. JStr (trim k)) (split_on CHR '','' s)))
      | _ \<Rightarrow> analysis)"

definition analyze :: "world \<Rightarrow> json \<times> world" where
  "analyze w =
     (case fetchWithCognitiveRetry valid_HybridAnalysis ''Hybrid Analysis'' w of
        (None, w1) \<Rightarrow> (empty_analysis, w1)
      | (Some synthResult, w1) \<Rightarrow> (normalize_keywords (parsed synthResult), w1))"

subsection \<open>Standard mode: the Timekeeper\<close>

text \<open>\<open>entry.importance < 4\<close>. The comparison converts the importance to a number:
  \<open>null\<close> and the booleans compare as 0 and 1, a string and an array as the number
  they spell, and \<open>undefined\<close> and an object as \<open>NaN\<close>. \<open>None\<close> where the conversion
  throws.\<close>

definition below_threshold :: "json option \<Rightarrow> bool option" where
  "below_threshold importance =
     (if converts importance then Some (less_than importance 4) else None)"

datatype gate = GateThrew | Intercepted reply | Passed "json list"

text \<open>\<open>entry.fact = timeResult.parsed.rewritten_fact || entry.fact\<close>, and the reply of
  the interceptor.\<close>

definition rewrite_fact :: "json \<Rightarrow> json \<Rightarrow> json" where
  "rewrite_fact verdict entry =
     (case or_else (property verdict ''rewritten_fact'') (property entry ''fact'') of
        None \<Rightarrow> entry
      | Some v \<Rightarrow> set_property entry ''fact'' v)"

definition safePayload :: "retry_result \<Rightarrow> reply" where
  "safePayload intercept =
     message [(''response'', property (parsed intercept) ''response''),
              (''mood'', Some (JStr ''CURIOUS'')),
              (''roots'', Some (JArr []))]"

text \<open>The loop over the entries, with \<open>validEntries\<close>. Reading \<open>entry.importance\<close> of
  \<open>null\<close> throws outside the \<open>try\<close>, and so do the comparison and the templates
  that log the entry and build the prompt, where the importance or the fact is not
  printable; an error inside the \<open>try\<close> keeps the entry.\<close>

fun timekeeper :: "json list \<Rightarrow> json list \<Rightarrow> world \<Rightarrow> gate \<times> world" where
  "timekeeper [] validEntries w = (Passed validEntries, w)"
| "timekeeper (entry # rest) validEntries w =
     (if entry = JNull then (GateThrew, w)
      else if below_threshold (property entry ''importance'') = None then (GateThrew, w)
      else if below_threshold (property entry ''importance'') = Some True
      then timekeeper rest (validEntries @ [entry]) w
      else if \<not> converts (property entry ''fact'') then (GateThrew, w)
      else
        (case fetchWithCognitiveRetry valid_Timekeeper ''Timekeeper'' w of
           (None, w1) \<Rightarrow> timekeeper rest (validEntries @ [entry]) w1
         | (Some timeResult, w1) \<Rightarrow>
             if truthy (property (parsed timeResult) ''valid'')
             then timekeeper rest (validEntries @ [rewrite_fact (parsed timeResult) entry]) w1
             else
               (case fetchWithCognitiveRetry valid_Interceptor ''Interceptor'' w1 of
                  (None, w2) \<Rightarrow> timekeeper rest (validEntries @ [entry]) w2
                | (Some intercept, w2) \<Rightarrow> (Intercepted (safePayload intercept), w2))))"

text \<open>Step 2: the gate runs when \<open>analysis.entries && analysis.entries.length > 0\<close>,
  over the elements of an array or the characters of a string; the loop throws on a
  value that is not iterable. Where the gate does not run, the same condition keeps
  the entries from persistence: none are passed on.\<close>

definition timekeeper_gate :: "json \<Rightarrow> world \<Rightarrow> gate \<times> world" where
  "timekeeper_gate analysis w =
     (if truthy (property analysis ''entries'')
         \<and> length_gt (the (property analysis ''entries'')) 0
      then
        (case iterate (the (property analysis ''entries'')) of
           None \<Rightarrow> (GateThrew, w)
         | Some entries \<Rightarrow> timekeeper entries [] w)
      else (Passed [], w))"

subsection \<open>Standard mode: retrieval\<close>

text \<open>Step 3 sends one request and keeps the formatted result in
  \<open>window.lastRetrievedMemories\<close>. The keywords it computes (those of the analysis,
  the title-cased input, the sticky words, the deep anchor) are the body of the
  request; computing them does not throw.\<close>

fun memory_text :: "memory \<Rightarrow> string" where
  "memory_text (MemText s) = s"
| "memory_text (MemFact e f) = ''[object Object]''"

definition retrievedContext :: "memory list \<Rightarrow> string" where
  "retrievedContext ms =
     ''=== DATABASE SEARCH RESULTS ==='' @ [CHR 0x0A] @ join [CHR 0x0A] (map memory_text ms)"

definition global_retrieval :: "world \<Rightarrow> world" where
  "global_retrieval w =
     (if configured w then
        (case store_fetch ''retrieve'' w of
           (StoreRejected, w1) \<Rightarrow> w1
         | (StoreReply memRes, w1) \<Rightarrow>
             if found memRes then
               (case relevant_memories memRes of
                  None \<Rightarrow> w1
                | Some ms \<Rightarrow> w1\<lparr>lastRetrievedMemories := Some (retrievedContext ms)\<rparr>)
             else w1)
      else w)"

subsection \<open>Standard mode: the redundancy guard\<close>

definition responseKeywords :: "string \<Rightarrow> string list" where
  "responseKeywords candidateResponse =
     filter (\<lambda>w. toLowerCase w \<notin> set [''what'', ''when'', ''where'', ''who'', ''why'',
                                          ''does'', ''this'', ''that'', ''have''])
       (filter (\<lambda>w. length w > 3 \<and> alphabetic w) (split_on CHR '' '' candidateResponse))"

text \<open>The \<open>try\<close> block of the reflexive search: the generation result it leaves.\<close>

definition reflexive_search :: "retry_result \<Rightarrow> world \<Rightarrow> retry_result \<times> world" where
  "reflexive_search generationResult w =
     (case store_fetch ''retrieve'' w of
        (StoreRejected, w1) \<Rightarrow> (generationResult, w1)
      | (StoreReply checkRes, w1) \<Rightarrow>
          (case found_memories checkRes of
             Memories ms \<Rightarrow>
               (case fetchWithCognitiveRetry valid_RedundancyCheck ''RedundancyCheck'' w1 of
                  (None, w2) \<Rightarrow> (generationResult, w2)
                | (Some sanityCheck, w2) \<Rightarrow>
                    if truthy (property (parsed sanityCheck) ''is_redundant'') then
                      (case fetchWithCognitiveRetry valid_CorrectionGeneration
                              ''CorrectionGeneration'' w2 of
                         (None, w3) \<Rightarrow> (generationResult, w3)
                       | (Some retryResult, w3) \<Rightarrow>
                           (generationResult\<lparr>parsed := parsed retryResult,
                                             cleaned := cleaned retryResult\<rparr>, w3))
                    else (generationResult, w2))
           | _ \<Rightarrow> (generationResult, w1)))"

text \<open>The guard; \<open>None\<close> where \<open>candidateResponse.split\<close> is not a function.\<close>

definition redundancy_guard ::
  "bool \<Rightarrow> retry_result \<Rightarrow> world \<Rightarrow> retry_result option \<times> world" where
  "redundancy_guard isQuestionMode generationResult w =
     (if isQuestionMode \<and> configured w \<and> truthy (property (parsed generationResult) ''response'')
      then
        (case property (parsed generationResult) ''response'' of
           Some (JStr candidateResponse) \<Rightarrow>
             if length (responseKeywords candidateResponse) > 0
             then (case reflexive_search generationResult w of (r, w1) \<Rightarrow> (Some r, w1))
             else (Some generationResult, w)
         | _ \<Rightarrow> (None, w))
      else (Some generationResult, w))"

subsection \<open>Standard mode: the mood sanitizer\<close>

text \<open>\<open>if (!m) return "NEUTRAL"; return m.toString().toUpperCase().trim()\<close>\<close>

definition sanitizeMood :: "json option \<Rightarrow> string" where
  "sanitizeMood m =
     (if \<not> truthy m then ''NEUTRAL'' else trim (toUpperCase (toString (the m))))"

text \<open>The callbacks of \<open>map\<close>; \<open>None\<close> where they throw (an element \<open>null\<close>, or
  branches that are not an array).\<close>

fun clean_branch :: "json \<Rightarrow> json option" where
  "clean_branch JNull = None"
| "clean_branch branch =
     Some (set_property branch ''mood'' (JStr (sanitizeMood (property branch ''mood''))))"

definition clean_branches :: "json \<Rightarrow> json option" where
  "clean_branches root =
     (if truthy (property root ''branches'') then
        (case property root ''branches'' of
           Some (JArr branches) \<Rightarrow>
             (case those (map clean_branch branches) of
                None \<Rightarrow> None
              | Some cleanBranches \<Rightarrow>
                  Some (set_property root ''branches'' (JArr cleanBranches)))
         | _ \<Rightarrow> None)
      else Some root)"

fun clean_root :: "json \<Rightarrow> json option" where
  "clean_root JNull = None"
| "clean_root root =
     clean_branches (set_property root ''mood'' (JStr (sanitizeMood (property root ''mood''))))"

text \<open>The sanitizer sets \<open>window.currentMood\<close> and hands the cleaned roots to
  \<open>window.updateGraphData\<close>; it rejects where \<open>roots.map\<close> or a callback throws.\<close>

definition mood_sanitizer :: "retry_result \<Rightarrow> world \<Rightarrow> unit promise \<times> world" where
  "mood_sanitizer generationResult w =
     (if \<not> truthy (Some (parsed generationResult)) then (Resolves (), w) else
      let w1 = (if truthy (property (parsed generationResult) ''mood'')
                then w\<lparr>currentMood :=
                         Some (sanitizeMood (property (parsed generationResult) ''mood''))\<rparr>
                else w)
      in if truthy (property (parsed generationResult) ''roots'') \<and> updateGraphData w1 then
           (case property (parsed generationResult) ''roots'' of
              Some (JArr roots) \<Rightarrow>
                (case those (map clean_root roots) of
                   None \<Rightarrow> (Rejects, w1)
                 | Some cleanRoots \<Rightarrow> (Resolves (), emit (UpdateGraph cleanRoots) w1))
            | _ \<Rightarrow> (Rejects, w1))
         else (Resolves (), w1))"

subsection \<open>Standard mode: persistence\<close>

text \<open>The refined fact and entities of the duplicate check, where they are long
  enough.\<close>

definition refine :: "json \<Rightarrow> json \<Rightarrow> json" where
  "refine check entry =
     (let entry1 =
            (if truthy (property check ''better_fact'')
                \<and> length_gt (the (property check ''better_fact'')) 5
             then set_property entry ''fact'' (the (property check ''better_fact''))
             else entry)
      in if truthy (property check ''better_entities'')
            \<and> length_gt (the (property check ''better_entities'')) 2
         then set_property entry1 ''entities'' (the (property check ''better_entities''))
         else entry1)"

definition has_context :: "world \<Rightarrow> bool" where
  "has_context w =
     (case lastRetrievedMemories w of None \<Rightarrow> False | Some s \<Rightarrow> s \<noteq> [] \<and> length s > 50)"

text \<open>The detached loop of step 5. It runs after the reply is determined; it stops
  where reading an entry throws.\<close>

fun persist :: "json list \<Rightarrow> world \<Rightarrow> world" where
  "persist [] w = w"
| "persist (entry # rest) w =
     (if entry = JNull then w
      else if \<not> truthy (property entry ''fact'') \<or> property entry ''fact'' = Some (JStr ''null'')
      then persist rest w
      else if has_context w then
        (case fetchWithCognitiveRetry valid_DedupRefine ''DedupRefine'' w of
           (None, w1) \<Rightarrow> persist rest (emit (StoreAtomic entry) w1)
         | (Some check, w1) \<Rightarrow>
             if property (parsed check) ''status'' = Some (JStr ''DUPLICATE'')
             then persist rest w1
             else persist rest (emit (StoreAtomic (refine (parsed check) entry)) w1))
      else persist rest (emit (StoreAtomic entry) w))"

subsection \<open>Standard mode\<close>

text \<open>\<open>{ choices: [{ message: { content: generationResult.cleaned } }] }\<close>\<close>

definition raw_reply :: "json \<Rightarrow> reply" where
  "raw_reply v =
     \<lparr>directorAction = None, deckKeywords = None, reply_files = None,
      reply_debug_query = None, content = v\<rparr>"

definition finish_turn :: "json list \<Rightarrow> retry_result \<Rightarrow> world \<Rightarrow> reply promise \<times> world" where
  "finish_turn entries generationResult w =
     (let w1 = (if configured w then emit (StoreSend ''log_chat'') w else w);
          w2 = (if configured w1 \<and> length entries > 0 then persist entries w1 else w1)
      in (Resolves (raw_reply (cleaned generationResult)), w2))"

definition standard_mode :: "bool \<Rightarrow> world \<Rightarrow> reply promise \<times> world" where
  "standard_mode isQuestionMode w =
     (case analyze w of
        (analysis, w1) \<Rightarrow>
          (case timekeeper_gate analysis w1 of
             (GateThrew, w2) \<Rightarrow> (Rejects, w2)
           | (Intercepted question, w2) \<Rightarrow> (Resolves question, w2)
           | (Passed entries, w2) \<Rightarrow>
               (case fetchWithCognitiveRetry valid_Generation ''Generation''
                       (global_retrieval w2) of
                  (None, w3) \<Rightarrow> (Rejects, w3)
                | (Some generationResult, w3) \<Rightarrow>
                    (case redundancy_guard isQuestionMode generationResult w3 of
                       (None, w4) \<Rightarrow> (Rejects, w4)
                     | (Some checked, w4) \<Rightarrow>
                         (case mood_sanitizer checked w4 of
                            (Rejects, w5) \<Rightarrow> (Rejects, w5)
                          | (Resolves u, w5) \<Rightarrow> finish_turn entries checked w5)))))"

text \<open>The entry point. The user's text, the history (messages with a role and a
  content, both strings), the key and the model name only enter the prompts and the
  request bodies; the two mode flags and the environment decide the run. The input
  is logged first, without waiting.\<close>

definition log_user_input :: "world \<Rightarrow> world" where
  "log_user_input w = (if configured w then emit (StoreSend ''log_chat'') w else w)"

definition processMemoryChat :: "bool \<Rightarrow> bool \<Rightarrow> world \<Rightarrow> reply promise \<times> world" where
  "processMemoryChat isQuestionMode isDirectorMode w =
     (if isDirectorMode then director_mode (log_user_input w)
      else standard_mode isQuestionMode (log_user_input w))"

section \<open>Observing a run\<close>

text \<open>What a run added to the trace: the calls to the inference service and the
  backoff sleeps, in milliseconds.\<close>

definition new_events :: "world \<Rightarrow> world \<Rightarrow> event list" where
  "new_events w w' = drop (length (trace w)) (trace w')"

fun calls :: "event list \<Rightarrow> nat" where
  "calls [] = 0"
| "calls (Inference l # es) = Suc (calls es)"
| "calls (e # es) = calls es"

fun sleeps :: "event list \<Rightarrow> nat list" where
  "sleeps [] = []"
| "sleeps (Sleep d # es) = d # sleeps es"
| "sleeps (e # es) = sleeps es"

text \<open>The outcome of the attempt that reads the \<open>i\<close>-th next answer of the inference
  service, and whether it is the authentication error.\<close>

definition nth_response :: "world \<Rightarrow> nat \<Rightarrow> http" where
  "nth_response w i = (if i < length (inference w) then inference w ! i else Rejected)"

definition outcome :: "validator \<Rightarrow> world \<Rightarrow> nat \<Rightarrow> failure + retry_result" where
  "outcome v w i = attempt v (json_parse w) (nth_response w i)"

definition auth_failure :: "failure + retry_result \<Rightarrow> bool" where
  "auth_failure x = (case x of Inl (CriticalAuthError s) \<Rightarrow> True | _ \<Rightarrow> False)"

text \<open>The world after one, two and three attempts.\<close>

definition advance :: "string \<Rightarrow> world \<Rightarrow> world" where
  "advance label w = emit (Inference label) (w\<lparr>inference := tl (inference w)\<rparr>)"

definition after1 :: "string \<Rightarrow> world \<Rightarrow> world" where
  "after1 l w = advance l w"

definition after2 :: "string \<Rightarrow> world \<Rightarrow> world" where
  "after2 l w = advance l (emit (Sleep 1000) (after1 l w))"

definition after3 :: "string \<Rightarrow> world \<Rightarrow> world" where
  "after3 l w = advance l (emit (Sleep 2000) (after2 l w))"

text \<open>The next reply of the storage service, and the world after an awaited request.\<close>

definition next_store :: "world \<Rightarrow> store_result" where
  "next_store w = (case storage w of [] \<Rightarrow> StoreRejected | r # rs \<Rightarrow> r)"

definition store_advance :: "string \<Rightarrow> world \<Rightarrow> world" where
  "store_advance a w = emit (StoreAwait a) (w\<lparr>storage := tl (storage w)\<rparr>)"

text \<open>The files of a reply.\<close>

definition result_files :: "reply \<Rightarrow> drive_file list" where
  "result_files r = (case reply_files r of None \<Rightarrow> [] | Some fs \<Rightarrow> fs)"

text \<open>A run extends the trace by events that satisfy \<open>P\<close> and leaves
  \<open>window.currentMood\<close> as it is.\<close>

definition run_ext :: "(event \<Rightarrow> bool) \<Rightarrow> world \<Rightarrow> world \<Rightarrow> bool" where
  "run_ext P w w' \<longleftrightarrow>
     (\<exists>evs. trace w' = trace w @ evs \<and> list_all P evs) \<and> currentMood w' = currentMood w"

text \<open>The events of the analysis and of the Timekeeper: calls to the inference service
  under their three labels, and backoff sleeps. A request of retrieval, generation or
  persistence is not among them.\<close>

fun gate_event :: "event \<Rightarrow> bool" where
  "gate_event (Inference l) = (l \<in> set [''Hybrid Analysis'', ''Timekeeper'', ''Interceptor''])"
| "gate_event (Sleep d) = True"
| "gate_event e = False"







text \<open>A value that is absent, \<open>null\<close>, a boolean or a number: a comparison with a
  number reads it as it is.\<close>

fun plain :: "json option \<Rightarrow> bool" where
  "plain (Some (JStr s)) = False"
| "plain (Some (JArr xs)) = False"
| "plain (Some (JObj kvs)) = False"
| "plain v = True"

text \<open>The resolved names that the ambiguity check of the SEARCH branch gives, where
  it runs after the identity request, are not an object.\<close>

definition names_listed :: "world \<Rightarrow> bool" where
  "names_listed w \<longleftrightarrow>
     (case fst (fetchWithCognitiveRetry valid_DirectorAmbiguity ''DirectorAmbiguity''
                 (snd (store_fetch ''retrieve_director_memory'' w))) of
        None \<Rightarrow> True
      | Some ambiguityCheck \<Rightarrow>
          (case property (parsed ambiguityCheck) ''resolved_names'' of
             Some (JObj kvs) \<Rightarrow> False
           | _ \<Rightarrow> True))"

subsection \<open>Concrete environments\<close>

definition world0 :: world where
  "world0 =
     \<lparr>inference = [], storage = [], json_parse = (\<lambda>s. None), appsScriptUrl = None,
      updateGraphData = False, currentMood = None, lastRetrievedMemories = None,
      trace = []\<rparr>"

text \<open>The body of a completion whose message has the given content.\<close>

definition completion :: "string \<Rightarrow> json" where
  "completion text =
     JObj [(''choices'', JArr [JObj [(''message'', JObj [(''content'', JStr text)])]])]"

definition world_auth :: world where
  "world_auth = world0\<lparr>inference := [Response 401 None, Response 401 None, Response 401 None]\<rparr>"

definition world_down :: world where
  "world_down = world0\<lparr>inference := [Response 500 None, Rejected, Response 503 None]\<rparr>"

definition world_slow :: world where
  "world_slow =
     world0\<lparr>inference := [Response 429 None, Response 200 (Some (completion ''{\"valid\":true}''))],
            json_parse := map_of [(''{\"valid\":true}'', JObj [(''valid'', JBool True)])]\<rparr>"

text \<open>A completion whose message content is an array that holds one JSON text.\<close>

definition parts :: json where
  "parts =
     JObj [(''choices'',
            JArr [JObj [(''message'', JObj [(''content'', JArr [JStr ''{\"valid\":true}''])])]])]"

definition world_parts :: world where
  "world_parts =
     world0\<lparr>inference := [Response 200 (Some parts)],
            json_parse := map_of [(''{\"valid\":true}'', JObj [(''valid'', JBool True)])]\<rparr>"

text \<open>An answer of the inference service whose message content is the JSON text of a
  value, and a \<open>JSON.parse\<close> that knows these texts.\<close>

definition answer :: "json \<Rightarrow> http" where
  "answer j = Response 200 (Some (completion (stringify j)))"

definition parse_of :: "json list \<Rightarrow> string \<Rightarrow> json option" where
  "parse_of js = map_of (map (\<lambda>j. (stringify j, j)) js)"

definition store_url :: string where
  "store_url = ''https://script.google.com/macros/s/archive/exec''"

definition no_hits :: store_reply where
  "no_hits = \<lparr>found = False, relevant_memories = Some [], files = None, debug_query = None\<rparr>"

definition nothing_found :: store_reply where
  "nothing_found = \<lparr>found = False, relevant_memories = None, files = Some [], debug_query = None\<rparr>"

text \<open>Director mode: a CHAT about Brent while the store is unreachable; a STORE of a new
  fact; an intent outside the three; a SEARCH for Brent without John to which the store
  answers not-found with a file; a SEARCH for two names that finds nothing.\<close>

definition chat_intent :: json where
  "chat_intent =
     JObj [(''intent'', JStr ''CHAT''), (''positive_constraints'', JArr [JStr ''Brent'']),
           (''negative_constraints'', JArr []), (''response'', JStr ''Brent is in the archive.'')]"

definition world_chat :: world where
  "world_chat =
     world0\<lparr>inference := [answer chat_intent], json_parse := parse_of [chat_intent],
            appsScriptUrl := Some store_url, storage := [StoreRejected]\<rparr>"

definition store_intent :: json where
  "store_intent =
     JObj [(''intent'', JStr ''STORE''), (''fact_to_store'', JStr ''Cody is the tall guy''),
           (''entity_name'', JStr ''Cody''), (''positive_constraints'', JArr [JStr ''Cody'']),
           (''negative_constraints'', JArr []), (''response'', JStr ''Noted: Cody is the tall guy.'')]"

definition world_store :: world where
  "world_store =
     world0\<lparr>inference := [answer store_intent], json_parse := parse_of [store_intent],
            appsScriptUrl := Some store_url, storage := [StoreReply no_hits]\<rparr>"

definition other_intent :: json where
  "other_intent = JObj [(''intent'', JStr ''DELETE'')]"

definition world_other :: world where
  "world_other = world0\<lparr>inference := [answer other_intent], json_parse := parse_of [other_intent]\<rparr>"

definition search_intent :: json where
  "search_intent =
     JObj [(''intent'', JStr ''SEARCH''), (''positive_constraints'', JArr [JStr ''Brent'']),
           (''negative_constraints'', JArr [JStr ''John'']),
           (''response'', JStr ''Pulling up <<Brent>>.'')]"

definition beach :: drive_file where
  "beach = \<lparr>name = ''Brent and John at the beach.mp4'', description = None\<rparr>"

definition solo :: drive_file where
  "solo = \<lparr>name = ''Brent solo.mp4'', description = Some ''interview''\<rparr>"

definition world_search_unfiltered :: world where
  "world_search_unfiltered =
     world0\<lparr>inference := [answer search_intent], json_parse := parse_of [search_intent],
            appsScriptUrl := Some store_url,
            storage := [StoreReply no_hits,
                        StoreReply \<lparr>found = False, relevant_memories = None,
                                    files = Some [beach], debug_query = None\<rparr>]\<rparr>"

definition two_files :: store_reply where
  "two_files = \<lparr>found = True, relevant_memories = None, files = Some [beach, solo],
                 debug_query = None\<rparr>"

definition pair_intent :: json where
  "pair_intent =
     JObj [(''intent'', JStr ''SEARCH''),
           (''positive_constraints'', JArr [JStr ''Brent'', JStr ''Cody'']),
           (''negative_constraints'', JArr []),
           (''response'', JStr ''Pulling up <<Brent>> and <<Cody>>.'')]"

definition world_pair :: world where
  "world_pair =
     world0\<lparr>appsScriptUrl := Some store_url,
            storage := [StoreReply no_hits, StoreReply nothing_found]\<rparr>"

text \<open>Standard mode: a trivial entry followed by an event without a date; a generation
  whose moods are in lower case and padded.\<close>

definition entry_red :: json where
  "entry_red = JObj [(''fact'', JStr ''Arvin likes red.''), (''entities'', JStr ''Arvin''),
                     (''topics'', JStr ''Preference''), (''importance'', JNum 2)]"

definition entry_zoo :: json where
  "entry_zoo = JObj [(''fact'', JStr ''Arvin went to the zoo.''), (''entities'', JStr ''Arvin''),
                     (''topics'', JStr ''History''), (''importance'', JNum 5)]"

definition analysis_zoo :: json where
  "analysis_zoo = JObj [(''search_keywords'', JArr [JStr ''Zoo'', JStr ''Red'']),
                        (''entries'', JArr [entry_red, entry_zoo])]"

definition verdict_undated :: json where
  "verdict_undated = JObj [(''valid'', JBool False), (''rewritten_fact'', JStr '''')]"

definition question_when :: json where
  "question_when = JObj [(''response'', JStr ''When did you go to the zoo?'')]"

definition world_zoo :: world where
  "world_zoo =
     world0\<lparr>inference := [answer analysis_zoo, answer verdict_undated, answer question_when],
            json_parse := parse_of [analysis_zoo, verdict_undated, question_when],
            appsScriptUrl := Some store_url\<rparr>"




section \<open>Properties of fetchWithCognitiveRetry\<close>

lemmas validator_defs =
  valid_DirectorAI_def valid_DirectorFilter_def valid_DirectorContextChat_def
  valid_DirectorDedup_def valid_DirectorAmbiguity_def valid_HybridAnalysis_def
  valid_Timekeeper_def valid_Interceptor_def valid_Generation_def valid_RedundancyCheck_def
  valid_CorrectionGeneration_def valid_DedupRefine_def

lemma emit_fields [simp]:
  "inference (emit e w) = inference w"
  "storage (emit e w) = storage w"
  "json_parse (emit e w) = json_parse w"
  "appsScriptUrl (emit e w) = appsScriptUrl w"
  "updateGraphData (emit e w) = updateGraphData w"
  "currentMood (emit e w) = currentMood w"
  "lastRetrievedMemories (emit e w) = lastRetrievedMemories w"
  "trace (emit e w) = trace w @ [e]"
  by (simp_all add: emit_def)

lemma fst_fetch_inference: "fst (fetch_inference label w) = nth_response w 0"
  by (cases "inference w") (simp_all add: fetch_inference_def nth_response_def)

lemma snd_fetch_inference: "snd (fetch_inference label w) = advance label w"
  by (simp add: fetch_inference_def advance_def)

lemma advance_fields [simp]:
  "inference (advance l w) = tl (inference w)"
  "storage (advance l w) = storage w"
  "json_parse (advance l w) = json_parse w"
  "appsScriptUrl (advance l w) = appsScriptUrl w"
  "updateGraphData (advance l w) = updateGraphData w"
  "currentMood (advance l w) = currentMood w"
  "lastRetrievedMemories (advance l w) = lastRetrievedMemories w"
  "trace (advance l w) = trace w @ [Inference l]"
  by (simp_all add: advance_def)

lemma nth_response_emit [simp]: "nth_response (emit e w) i = nth_response w i"
  by (simp add: nth_response_def)

lemma nth_response_advance [simp]: "nth_response (advance l w) i = nth_response w (Suc i)"
  by (cases "inference w") (simp_all add: nth_response_def)

text \<open>The loop, unrolled: it makes one, two or three attempts.\<close>

lemma retry_unfold:
  "fetchWithCognitiveRetry v l w =
    (case outcome v w 0 of
       Inr r \<Rightarrow> (Some r, after1 l w)
     | Inl e1 \<Rightarrow>
        (case outcome v w 1 of
           Inr r \<Rightarrow> (Some r, after2 l w)
         | Inl e2 \<Rightarrow>
            (case outcome v w 2 of
               Inr r \<Rightarrow> (Some r, after3 l w)
             | Inl e3 \<Rightarrow> (Some safe_mode, after3 l w))))"
proof -
  have step: "retry_loop v l a d u =
      (if a < 3 then
         (case attempt v (json_parse u) (nth_response u 0) of
            Inr r \<Rightarrow> (Some r, advance l u)
          | Inl e \<Rightarrow> if 2 \<le> a then (Some safe_mode, advance l u)
                     else retry_loop v l (a + 1) (d * 2) (emit (Sleep d) (advance l u)))
       else (None, u))" for a d u
    by (subst retry_loop.simps)
       (simp add: MAX_RETRIES_def fst_fetch_inference snd_fetch_inference split: sum.split)
  show ?thesis
    unfolding fetchWithCognitiveRetry_def after1_def after2_def after3_def outcome_def
    apply (subst step)
    apply (subst step)
    apply (subst step)
    apply (simp add: numeral_2_eq_2 split: sum.split)
    done
qed

lemma new_events_after [simp]:
  "new_events w (after1 l w) = [Inference l]"
  "new_events w (after2 l w) = [Inference l, Sleep 1000, Inference l]"
  "new_events w (after3 l w) = [Inference l, Sleep 1000, Inference l, Sleep 2000, Inference l]"
  by (simp_all add: new_events_def after1_def after2_def after3_def)

lemma validators_object:
  assumes "v \<in> set validators" and "v d = Some True"
  shows "is_object d"
  using assms by (cases d) (auto simp: validators_def validator_defs reading_def)

lemma attempt_Inr:
  assumes "attempt v p h = Inr r"
  shows "\<exists>data. raw r = Some data \<and> message_content data = Some (Some (cleaned r))
           \<and> printable (cleaned r)
           \<and> p (toString (cleaned r)) = Some (parsed r) \<and> v (parsed r) = Some True"
  using assms
  by (auto simp: attempt_def split: http.splits if_splits option.splits bool.splits)

text \<open>A run returns what a successful attempt gave, or the "Safe Mode" object after
  three failures.\<close>

lemma retry_cases:
  "(\<exists>i r. outcome v w i = Inr r \<and> fst (fetchWithCognitiveRetry v l w) = Some r)
   \<or> (fst (fetchWithCognitiveRetry v l w) = Some safe_mode
       \<and> isl (outcome v w 0) \<and> isl (outcome v w 1) \<and> isl (outcome v w 2))"
  by (cases "outcome v w 0"; cases "outcome v w 1"; cases "outcome v w 2")
     (auto simp: retry_unfold)

text \<open>
  C1. A response status of 401 or 403 should end the call after one attempt. In the
  code the authentication error is thrown inside the \<open>try\<close> block and caught by the
  same \<open>catch\<close> as every other error: with three answers of status 401 the function
  makes three attempts, sleeps 1000 ms and 2000 ms between them and returns the
  "Safe Mode" object.
\<close>

theorem auth_error_is_retried:
  "fst (fetchWithCognitiveRetry valid_DirectorAI ''DirectorAI'' world_auth) = Some safe_mode
   \<and> new_events world_auth
        (snd (fetchWithCognitiveRetry valid_DirectorAI ''DirectorAI'' world_auth))
     = [Inference ''DirectorAI'', Sleep 1000, Inference ''DirectorAI'', Sleep 2000,
        Inference ''DirectorAI'']"
  by code_simp

text \<open>
  C2, as stated, asks for the delays 1, 2 and 4 time units (of 1000 ms). After the
  third failed attempt the function returns at once: with three failing answers
  the sleeps are 1000 ms and 2000 ms, and no sleep of 4000 ms takes place.
\<close>

theorem backoff_has_no_third_delay:
  "sleeps (new_events world_down
       (snd (fetchWithCognitiveRetry valid_Generation ''Generation'' world_down)))
     = [1000, 2000]
   \<and> sleeps (new_events world_down
       (snd (fetchWithCognitiveRetry valid_Generation ''Generation'' world_down)))
     \<noteq> [1000, 2000, 4000]"
  by code_simp

text \<open>
  C2, amended. Every run makes at least one and at most three attempts, and the
  sleeps are a prefix of 1000 ms, 2000 ms. Where none of the three next answers is
  the authentication error, there is one sleep after each attempt but the last,
  each of these attempts has failed, and the sleeps are 1000 ms, then 2000 ms.
\<close>

theorem backoff_schedule:
  "1 \<le> calls (new_events w (snd (fetchWithCognitiveRetry v label w)))
   \<and> calls (new_events w (snd (fetchWithCognitiveRetry v label w))) \<le> 3
   \<and> prefix (sleeps (new_events w (snd (fetchWithCognitiveRetry v label w)))) [1000, 2000]
   \<and> (\<not> auth_failure (outcome v w 0) \<and> \<not> auth_failure (outcome v w 1)
        \<and> \<not> auth_failure (outcome v w 2) \<longrightarrow>
        sleeps (new_events w (snd (fetchWithCognitiveRetry v label w))) =
          take (calls (new_events w (snd (fetchWithCognitiveRetry v label w))) - 1) [1000, 2000]
        \<and> (\<forall>i < calls (new_events w (snd (fetchWithCognitiveRetry v label w))) - 1.
              isl (outcome v w i)))"
  by (auto simp: retry_unfold less_Suc_eq split: sum.splits)

theorem backoff_schedule_witness:
  "\<not> auth_failure (outcome valid_Generation world_down 0)
   \<and> \<not> auth_failure (outcome valid_Generation world_down 1)
   \<and> \<not> auth_failure (outcome valid_Generation world_down 2)
   \<and> calls (new_events world_down
        (snd (fetchWithCognitiveRetry valid_Generation ''Generation'' world_down))) = 3
   \<and> sleeps (new_events world_down
        (snd (fetchWithCognitiveRetry valid_Generation ''Generation'' world_down)))
       = take (3 - 1) [1000, 2000]
   \<and> isl (outcome valid_Generation world_down 0)
   \<and> isl (outcome valid_Generation world_down 1)"
proof -
  have h: "\<not> auth_failure (outcome valid_Generation world_down 0)
      \<and> \<not> auth_failure (outcome valid_Generation world_down 1)
      \<and> \<not> auth_failure (outcome valid_Generation world_down 2)"
    by code_simp
  have n: "calls (new_events world_down
        (snd (fetchWithCognitiveRetry valid_Generation ''Generation'' world_down))) = 3"
    by code_simp
  from backoff_schedule [of world_down valid_Generation "''Generation''"] h n
  show ?thesis by (simp add: less_Suc_eq numeral_2_eq_2)
qed

text \<open>
  C3. When the three attempts fail, whatever the failures are, the function returns
  the "Safe Mode" object: its parsed content has the mood NEUTRAL and the
  placeholder response "...". The result is a value: no error leaves the function.
\<close>

theorem exhaustion_fallback:
  assumes "isl (outcome v w 0)" and "isl (outcome v w 1)" and "isl (outcome v w 2)"
  shows "fst (fetchWithCognitiveRetry v label w) = Some safe_mode
     \<and> property (parsed safe_mode) ''mood'' = Some (JStr ''NEUTRAL'')
     \<and> property (parsed safe_mode) ''response'' = Some (JStr ''...'')"
  using assms by (auto simp: retry_unfold isl_def safe_mode_def)

theorem exhaustion_fallback_witness:
  "isl (outcome valid_Timekeeper world_down 0) \<and> isl (outcome valid_Timekeeper world_down 1)
   \<and> isl (outcome valid_Timekeeper world_down 2)
   \<and> fst (fetchWithCognitiveRetry valid_Timekeeper ''Timekeeper'' world_down) = Some safe_mode
   \<and> property (parsed safe_mode) ''mood'' = Some (JStr ''NEUTRAL'')"
proof -
  have h: "isl (outcome valid_Timekeeper world_down 0)"
    "isl (outcome valid_Timekeeper world_down 1)" "isl (outcome valid_Timekeeper world_down 2)"
    by code_simp+
  from exhaustion_fallback [OF h, of "''Timekeeper''"] h show ?thesis by simp
qed

text \<open>
  C9, as stated, makes \<open>cleaned\<close> a JSON string on every path. The function returns
  the message content as it came, and \<open>JSON.parse\<close> converts what it is given: when
  the content is an array that holds one JSON text, the attempt succeeds and \<open>cleaned\<close>
  is the array.
\<close>

theorem cleaned_is_the_content:
  "fst (fetchWithCognitiveRetry valid_Timekeeper ''Timekeeper'' world_parts)
     = Some \<lparr>raw = Some parts, parsed = JObj [(''valid'', JBool True)],
             cleaned = JArr [JStr ''{\"valid\":true}'']\<rparr>
   \<and> \<not> is_string (Some (JArr [JStr ''{\"valid\":true}'']))"
  by code_simp

text \<open>
  C9, amended. With each validator of the module, the function returns a value whose
  \<open>parsed\<close> field is an object. Either it comes from a successful attempt: then
  \<open>raw\<close> is the response data, \<open>cleaned\<close> is the message content of the response as
  it came (a string where the service sent a string), its conversion to a string is a
  text that \<open>JSON.parse\<close> accepts, and \<open>parsed\<close> is what it parses to. Or the three
  attempts have failed: then \<open>raw\<close> is absent, \<open>parsed\<close> is the neutral object and
  \<open>cleaned\<close> is the string of its JSON text.
\<close>

theorem result_fields:
  assumes "v \<in> set validators"
  shows "\<exists>r. fst (fetchWithCognitiveRetry v label w) = Some r \<and> is_object (parsed r) \<and>
     ((\<exists>data. raw r = Some data \<and> message_content data = Some (Some (cleaned r))
          \<and> printable (cleaned r)
          \<and> json_parse w (toString (cleaned r)) = Some (parsed r) \<and> v (parsed r) = Some True)
      \<or> (raw r = None
          \<and> parsed r = JObj [(''mood'', JStr ''NEUTRAL''), (''response'', JStr ''...'')]
          \<and> cleaned r = JStr (stringify (parsed r))
          \<and> isl (outcome v w 0) \<and> isl (outcome v w 1) \<and> isl (outcome v w 2)))"
proof -
  have safe: "is_object (parsed safe_mode)" "raw safe_mode = None"
    "parsed safe_mode = JObj [(''mood'', JStr ''NEUTRAL''), (''response'', JStr ''...'')]"
    "cleaned safe_mode = JStr (stringify (parsed safe_mode))"
    by (simp_all add: safe_mode_def quote_def escape_char_def)
  from retry_cases [of v w label] show ?thesis
  proof
    assume "\<exists>i r. outcome v w i = Inr r \<and> fst (fetchWithCognitiveRetry v label w) = Some r"
    then obtain i r where r: "outcome v w i = Inr r"
      "fst (fetchWithCognitiveRetry v label w) = Some r" by blast
    from attempt_Inr [OF r(1) [unfolded outcome_def]] validators_object [OF assms] r(2)
    show ?thesis by blast
  next
    assume "fst (fetchWithCognitiveRetry v label w) = Some safe_mode
      \<and> isl (outcome v w 0) \<and> isl (outcome v w 1) \<and> isl (outcome v w 2)"
    with safe show ?thesis by simp
  qed
qed

theorem result_fields_witness:
  "valid_Timekeeper \<in> set validators
   \<and> fst (fetchWithCognitiveRetry valid_Timekeeper ''Timekeeper'' world_slow)
       = Some \<lparr>raw = Some (completion ''{\"valid\":true}''),
               parsed = JObj [(''valid'', JBool True)], cleaned = JStr ''{\"valid\":true}''\<rparr>
   \<and> raw (the (fst (fetchWithCognitiveRetry valid_Timekeeper ''Timekeeper'' world_down))) = None
   \<and> cleaned (the (fst (fetchWithCognitiveRetry valid_Timekeeper ''Timekeeper'' world_down)))
       = JStr ''{\"mood\":\"NEUTRAL\",\"response\":\"...\"}''"
proof -
  have h: "valid_Timekeeper \<in> set validators" by (simp add: validators_def)
  have a: "fst (fetchWithCognitiveRetry valid_Timekeeper ''Timekeeper'' world_slow)
       = Some \<lparr>raw = Some (completion ''{\"valid\":true}''),
               parsed = JObj [(''valid'', JBool True)], cleaned = JStr ''{\"valid\":true}''\<rparr>"
    by code_simp
  have b: "raw (the (fst (fetchWithCognitiveRetry valid_Timekeeper ''Timekeeper'' world_down)))
       = None"
    by code_simp
  have c: "cleaned (the (fst (fetchWithCognitiveRetry valid_Timekeeper ''Timekeeper'' world_down)))
       = JStr ''{\"mood\":\"NEUTRAL\",\"response\":\"...\"}''"
    by code_simp
  from result_fields [OF h, of "''Timekeeper''" world_slow] h a b c show ?thesis by simp
qed

section \<open>Properties of the Director mode\<close>

lemmas after_defs = after1_def after2_def after3_def

lemma outcome_emit [simp]: "outcome v (emit e w) i = outcome v w i"
  by (simp add: outcome_def)

lemma configured_emit [simp]: "configured (emit e w) = configured w"
  by (simp add: configured_def)

lemma log_user_input_fields [simp]:
  "inference (log_user_input w) = inference w"
  "storage (log_user_input w) = storage w"
  "json_parse (log_user_input w) = json_parse w"
  "appsScriptUrl (log_user_input w) = appsScriptUrl w"
  "updateGraphData (log_user_input w) = updateGraphData w"
  "currentMood (log_user_input w) = currentMood w"
  "lastRetrievedMemories (log_user_input w) = lastRetrievedMemories w"
  "configured (log_user_input w) = configured w"
  "outcome v (log_user_input w) i = outcome v w i"
  by (simp_all add: log_user_input_def)

lemma retry_fst_cong:
  assumes "\<And>i. outcome v w' i = outcome v w i"
  shows "fst (fetchWithCognitiveRetry v l w') = fst (fetchWithCognitiveRetry v l w)"
  by (simp add: retry_unfold assms split: sum.splits)

lemma retry_fst_log [simp]:
  "fst (fetchWithCognitiveRetry v l (log_user_input w)) = fst (fetchWithCognitiveRetry v l w)"
  by (rule retry_fst_cong) simp

lemma retry_fields [simp]:
  "storage (snd (fetchWithCognitiveRetry v l w)) = storage w"
  "json_parse (snd (fetchWithCognitiveRetry v l w)) = json_parse w"
  "appsScriptUrl (snd (fetchWithCognitiveRetry v l w)) = appsScriptUrl w"
  "updateGraphData (snd (fetchWithCognitiveRetry v l w)) = updateGraphData w"
  "currentMood (snd (fetchWithCognitiveRetry v l w)) = currentMood w"
  "lastRetrievedMemories (snd (fetchWithCognitiveRetry v l w)) = lastRetrievedMemories w"
  by (simp_all add: retry_unfold after_defs split: sum.splits)

lemma retry_configured [simp]:
  "configured (snd (fetchWithCognitiveRetry v l w)) = configured w"
  by (simp add: configured_def)

lemma retry_returns: "\<exists>r. fst (fetchWithCognitiveRetry v l w) = Some r"
  by (simp add: retry_unfold split: sum.splits)

lemma store_fetch_eq: "store_fetch a w = (next_store w, store_advance a w)"
  by (simp add: store_fetch_def next_store_def store_advance_def)

lemma need_specifics_content:
  "content need_specifics =
     JStr ''{\"response\":\"I need more specific names or traits to search the archive.\",\"mood\":\"CRYPTIC\"}''"
  by code_simp

text \<open>
  C10. In Director mode, when the intent is CHAT, the positive constraints are a list
  that is not empty (of printable values) and the store is configured, a retrieval
  that throws (the request or \<open>.json()\<close> rejects, or the reply says found and has no
  list of memories) is caught, and \<open>processMemoryChat\<close> returns the fixed reply "I need
  more specific names or traits to search the archive." with the mood CRYPTIC: the
  reply of a CHAT whose constraints are missing or an empty list.
\<close>

theorem chat_lookup_failure:
  assumes "fst (fetchWithCognitiveRetry valid_DirectorAI ''DirectorAI'' w) = Some res"
    and "property (parsed res) ''intent'' = Some (JStr ''CHAT'')"
    and "property (parsed res) ''positive_constraints'' = Some (JArr (k # ks))"
    and "printable (JArr (k # ks))"
    and "configured w"
    and "next_store w = StoreRejected
         \<or> (\<exists>r. next_store w = StoreReply r \<and> found r \<and> relevant_memories r = None)"
  shows "fst (processMemoryChat q True w) = Resolves need_specifics
     \<and> content need_specifics =
         JStr ''{\"response\":\"I need more specific names or traits to search the archive.\",\"mood\":\"CRYPTIC\"}''
     \<and> (property a ''intent'' = Some (JStr ''CHAT'')
          \<and> (\<not> truthy (property a ''positive_constraints'')
               \<or> property a ''positive_constraints'' = Some (JArr []))
          \<longrightarrow> director_chat a u = (Resolves need_specifics, u))"
proof -
  obtain w1 where run: "fetchWithCognitiveRetry valid_DirectorAI ''DirectorAI'' (log_user_input w)
      = (Some res, w1)"
    using assms(1) by (cases "fetchWithCognitiveRetry valid_DirectorAI ''DirectorAI'' (log_user_input w)")
      (simp add: retry_fst_log [symmetric] del: retry_fst_log)
  have w1: "storage w1 = storage w" "configured w1"
    using retry_fields(1) [of valid_DirectorAI "''DirectorAI''" "log_user_input w"]
      retry_configured [of valid_DirectorAI "''DirectorAI''" "log_user_input w"] assms(5)
    by (simp_all add: run)
  then have ns: "next_store w1 = next_store w" by (simp add: next_store_def)
  have "fst (chat_lookup (JArr (k # ks)) w1) = None"
    using assms(6) unfolding ns [symmetric]
    by (auto simp: chat_lookup_def found_memories_def store_fetch_eq)
  then have "fst (director_chat (parsed res) w1) = Resolves need_specifics"
    using assms(3,4) w1
    by (cases "chat_lookup (JArr (k # ks)) w1") (simp add: director_chat_def)
  then have "fst (processMemoryChat q True w) = Resolves need_specifics"
    using assms(2) by (simp add: processMemoryChat_def director_mode_def run converts_def)
  moreover have "property a ''intent'' = Some (JStr ''CHAT'')
          \<and> (\<not> truthy (property a ''positive_constraints'')
               \<or> property a ''positive_constraints'' = Some (JArr []))
          \<longrightarrow> director_chat a u = (Resolves need_specifics, u)"
    by (auto simp: director_chat_def)
  ultimately show ?thesis using need_specifics_content by simp
qed

theorem chat_lookup_failure_witness:
  "fst (processMemoryChat False True world_chat) = Resolves need_specifics
   \<and> director_chat (JObj [(''intent'', JStr ''CHAT'')]) world0
       = (Resolves need_specifics, world0)"
proof -
  have 1: "fst (fetchWithCognitiveRetry valid_DirectorAI ''DirectorAI'' world_chat)
      = Some \<lparr>raw = Some (completion (stringify chat_intent)), parsed = chat_intent,
               cleaned = JStr (stringify chat_intent)\<rparr>"
    by code_simp
  have 2: "property chat_intent ''intent'' = Some (JStr ''CHAT'')" by code_simp
  have 3: "property chat_intent ''positive_constraints'' = Some (JArr (JStr ''Brent'' # []))"
    by code_simp
  have 4: "printable (JArr (JStr ''Brent'' # []))" by simp
  have 5: "configured world_chat" by code_simp
  have 6: "next_store world_chat = StoreRejected" by code_simp
  have 7: "property (JObj [(''intent'', JStr ''CHAT'')]) ''intent'' = Some (JStr ''CHAT'')"
    "\<not> truthy (property (JObj [(''intent'', JStr ''CHAT'')]) ''positive_constraints'')"
    by simp_all
  from chat_lookup_failure [OF 1, of "JStr ''Brent''" "[]" False
      "JObj [(''intent'', JStr ''CHAT'')]" world0] 2 3 4 5 6 7
  show ?thesis by simp
qed

text \<open>
  C4. Every return path should give a content with a response and a mood. The STORE
  branch, after a fact that is neither a duplicate nor a contradiction, returns a
  content with the response only; and the last return of the Director mode leaves the
  response out when the classifier gave none (an intent outside CHAT, STORE and SEARCH
  passes the validator).
\<close>

theorem store_reply_has_no_mood:
  "fst (processMemoryChat False True world_store)
     = Resolves (message [(''response'', Some (JStr ''Noted: Cody is the tall guy.''))])
   \<and> content (message [(''response'', Some (JStr ''Noted: Cody is the tall guy.''))])
       = JStr ''{\"response\":\"Noted: Cody is the tall guy.\"}''
   \<and> \<not> str_includes ''{\"response\":\"Noted: Cody is the tall guy.\"}'' ''mood''
   \<and> fst (processMemoryChat False True world_other)
       = Resolves (message [(''response'', None), (''mood'', Some (JStr ''CRYPTIC''))])
   \<and> content (message [(''response'', None), (''mood'', Some (JStr ''CRYPTIC''))])
       = JStr ''{\"mood\":\"CRYPTIC\"}''"
  by code_simp

lemma no_footage_text:
  "stringify (object [(''response'', Some (JStr ''No matching footage found.'')),
                      (''mood'', Some (JStr ''SAD''))])
     = ''{\"response\":\"No matching footage found.\",\"mood\":\"SAD\"}''"
  by code_simp

lemma no_footage_content:
  "\<not> found res \<Longrightarrow>
   content (play_media aiRes res)
     = JStr ''{\"response\":\"No matching footage found.\",\"mood\":\"SAD\"}''"
  by (simp add: play_media_def no_footage_text)

lemma search_reply_run:
  assumes "resolve_keywords (or_empty (property aiRes ''positive_constraints'')) w
             = (Resolves (Inr (JArr finalKeywords)), w1)"
    and "printable (JArr finalKeywords)"
    and "printable (or_empty (property aiRes ''negative_constraints''))"
    and "store_fetch ''director_search'' w1 = (StoreReply searchRes, w2)"
    and "enforce_exclusions (or_empty (property aiRes ''negative_constraints'')) searchRes
             = Some filtered"
  shows "director_search aiRes w = (Resolves (search_reply aiRes finalKeywords filtered), w2)"
  using assms by (simp add: director_search_def final_reply_def)

lemma search_reply_cases:
  "(search_reply aiRes finalKeywords filtered = cooperative_fallback finalKeywords
      \<longleftrightarrow> \<not> found filtered \<and> length finalKeywords > 1)
   \<and> (directorAction (search_reply aiRes finalKeywords filtered) = Some ''SHOW_DECKS''
      \<longleftrightarrow> \<not> found filtered \<and> length finalKeywords > 1)
   \<and> (\<not> found filtered \<and> length finalKeywords \<le> 1
      \<longrightarrow> directorAction (search_reply aiRes finalKeywords filtered) = Some ''PLAY_MEDIA''
          \<and> content (search_reply aiRes finalKeywords filtered)
              = JStr ''{\"response\":\"No matching footage found.\",\"mood\":\"SAD\"}'')"
proof -
  have a: "directorAction (play_media aiRes filtered) = Some ''PLAY_MEDIA''"
    by (simp add: play_media_def)
  have b: "directorAction (cooperative_fallback finalKeywords) = Some ''SHOW_DECKS''"
    by (simp add: cooperative_fallback_def)
  have c: "play_media aiRes filtered \<noteq> cooperative_fallback finalKeywords"
    and d: "directorAction (play_media aiRes filtered) \<noteq> Some ''SHOW_DECKS''"
    by (simp_all add: play_media_def cooperative_fallback_def)
  show ?thesis
  proof (cases "\<not> found filtered \<and> length finalKeywords > 1")
    case True
    then have "search_reply aiRes finalKeywords filtered = cooperative_fallback finalKeywords"
      by (simp add: search_reply_def)
    with True b show ?thesis by simp
  next
    case False
    then have r: "search_reply aiRes finalKeywords filtered = play_media aiRes filtered"
      unfolding search_reply_def by (rule if_not_P)
    have "\<not> found filtered \<longrightarrow> content (play_media aiRes filtered)
        = JStr ''{\"response\":\"No matching footage found.\",\"mood\":\"SAD\"}''"
      using no_footage_content by blast
    with False r a c d show ?thesis by auto
  qed
qed

lemma fallback_fields:
  "deckKeywords (cooperative_fallback finalKeywords) = Some finalKeywords"
  "reply_files (cooperative_fallback finalKeywords) = Some []"
  "content (cooperative_fallback finalKeywords)
     = JStr (stringify (JObj
         [(''response'', JStr (''I couldn't find a single scene with BOTH ''
             @ array_join '' and '' finalKeywords
             @ ''. However, I can likely access their individual footage. Which one should I prioritize?'')),
          (''mood'', JStr ''QUESTION'')]))"
  by (simp_all add: cooperative_fallback_def object_def)

text \<open>
  C7. Let the final keywords of the SEARCH branch be a list, and let the branch reach
  its reply (the two lists are printable, the search request is answered and the
  client-side filter returns). Then the reply is the cooperative fallback exactly when
  the search result, after the filter, is not found and there is more than one final
  keyword: the action SHOW_DECKS with all the final keywords, no files, and the content
  "I couldn't find a single scene with BOTH ... However, I can likely access their
  individual footage. Which one should I prioritize?" (the keywords joined by " and ")
  with the mood QUESTION. A search that fails with at most one keyword returns the
  action PLAY_MEDIA with "No matching footage found." and the mood SAD. The \<open>length\<close>
  of an object is a property like another, read through the conversion to a number:
  the statement is about exclusions and resolved names that are not objects.
\<close>

theorem cooperative_fallback_condition:
  assumes "\<not> is_object (or_empty (property aiRes ''negative_constraints''))"
    and "names_listed w"
    and "fst (resolve_keywords (or_empty (property aiRes ''positive_constraints'')) w)
             = Resolves (Inr (JArr finalKeywords))"
    and "printable (JArr finalKeywords)"
    and "printable (or_empty (property aiRes ''negative_constraints''))"
    and "fst (store_fetch ''director_search''
               (snd (resolve_keywords (or_empty (property aiRes ''positive_constraints'')) w)))
             = StoreReply searchRes"
    and "enforce_exclusions (or_empty (property aiRes ''negative_constraints'')) searchRes
             = Some filtered"
  shows "\<exists>r. fst (director_search aiRes w) = Resolves r
     \<and> (r = cooperative_fallback finalKeywords
          \<longleftrightarrow> \<not> found filtered \<and> length finalKeywords > 1)
     \<and> (directorAction r = Some ''SHOW_DECKS''
          \<longleftrightarrow> \<not> found filtered \<and> length finalKeywords > 1)
     \<and> (\<not> found filtered \<and> length finalKeywords > 1
          \<longrightarrow> deckKeywords r = Some finalKeywords \<and> reply_files r = Some []
              \<and> content r = JStr (stringify (JObj
                    [(''response'', JStr (''I couldn't find a single scene with BOTH ''
                        @ array_join '' and '' finalKeywords
                        @ ''. However, I can likely access their individual footage. Which one should I prioritize?'')),
                     (''mood'', JStr ''QUESTION'')])))
     \<and> (\<not> found filtered \<and> length finalKeywords \<le> 1
          \<longrightarrow> directorAction r = Some ''PLAY_MEDIA''
              \<and> content r
                  = JStr ''{\"response\":\"No matching footage found.\",\"mood\":\"SAD\"}'')"
proof -
  obtain w1 where 1: "resolve_keywords (or_empty (property aiRes ''positive_constraints'')) w
      = (Resolves (Inr (JArr finalKeywords)), w1)"
    using assms(3)
    by (cases "resolve_keywords (or_empty (property aiRes ''positive_constraints'')) w") simp
  obtain w2 where 2: "store_fetch ''director_search'' w1 = (StoreReply searchRes, w2)"
    using assms(6) unfolding 1 by (cases "store_fetch ''director_search'' w1") simp
  have run: "fst (director_search aiRes w) = Resolves (search_reply aiRes finalKeywords filtered)"
    using search_reply_run [OF 1 assms(4) assms(5) 2 assms(7)] by simp
  have fallback: "\<not> found filtered \<and> length finalKeywords > 1
      \<longrightarrow> search_reply aiRes finalKeywords filtered = cooperative_fallback finalKeywords"
    by (simp add: search_reply_def)
  show ?thesis
    apply (rule exI [of _ "search_reply aiRes finalKeywords filtered"])
    apply (intro conjI)
        apply (rule run)
    using search_reply_cases [of aiRes finalKeywords filtered] apply blast
    using search_reply_cases [of aiRes finalKeywords filtered] apply blast
    using fallback fallback_fields [of finalKeywords] apply (cases "\<not> found filtered \<and> length finalKeywords > 1"; simp)
    using search_reply_cases [of aiRes finalKeywords filtered] apply blast
    done
qed

lemma pair_fallback_content:
  "content (cooperative_fallback [JStr ''Brent'', JStr ''Cody''])
     = JStr ''{\"response\":\"I couldn't find a single scene with BOTH Brent and Cody. However, I can likely access their individual footage. Which one should I prioritize?\",\"mood\":\"QUESTION\"}''"
  by code_simp

theorem cooperative_fallback_condition_witness:
  "fst (director_search pair_intent world_pair)
     = Resolves (cooperative_fallback [JStr ''Brent'', JStr ''Cody''])
   \<and> directorAction (cooperative_fallback [JStr ''Brent'', JStr ''Cody'']) = Some ''SHOW_DECKS''
   \<and> content (cooperative_fallback [JStr ''Brent'', JStr ''Cody''])
     = JStr ''{\"response\":\"I couldn't find a single scene with BOTH Brent and Cody. However, I can likely access their individual footage. Which one should I prioritize?\",\"mood\":\"QUESTION\"}''"
proof -
  have 0: "\<not> is_object (or_empty (property pair_intent ''negative_constraints''))"
    by code_simp
  have n: "names_listed world_pair" by code_simp
  have 1: "fst (resolve_keywords (or_empty (property pair_intent ''positive_constraints''))
                 world_pair) = Resolves (Inr (JArr [JStr ''Brent'', JStr ''Cody'']))"
    by code_simp
  have p: "printable (JArr [JStr ''Brent'', JStr ''Cody''])"
    "printable (or_empty (property pair_intent ''negative_constraints''))"
    by code_simp+
  have 2: "fst (store_fetch ''director_search''
               (snd (resolve_keywords (or_empty (property pair_intent ''positive_constraints''))
                      world_pair))) = StoreReply nothing_found"
    by code_simp
  have 3: "enforce_exclusions (or_empty (property pair_intent ''negative_constraints''))
             nothing_found = Some nothing_found"
    by code_simp
  have 4: "\<not> found nothing_found \<and> length [JStr ''Brent'', JStr ''Cody''] > 1"
    by code_simp
  from cooperative_fallback_condition [OF 0 n 1 p 2 3] 4 pair_fallback_content
  show ?thesis by auto
qed

text \<open>
  C6, as stated, covers every SEARCH with exclusions. The filter runs only when the
  store reports found: a reply that says not-found and carries a file is returned with
  the file, whatever its name contains.
\<close>

theorem unfiltered_when_not_found:
  "fst (processMemoryChat False True world_search_unfiltered)
     = Resolves (play_media search_intent
         \<lparr>found = False, relevant_memories = None, files = Some [beach], debug_query = None\<rparr>)
   \<and> result_files (play_media search_intent
         \<lparr>found = False, relevant_memories = None, files = Some [beach], debug_query = None\<rparr>)
       = [beach]
   \<and> str_includes (file_meta beach) (toLowerCase ''John'')"
  by code_simp

lemma some_excluded_strings:
  assumes "\<forall>ex \<in> set excludeKeywords. is_string (Some ex)"
  shows "some_excluded meta excludeKeywords
     = Some (\<exists>s. JStr s \<in> set excludeKeywords \<and> str_includes meta (toLowerCase s))"
  using assms
proof (induction excludeKeywords)
  case Nil
  then show ?case by simp
next
  case (Cons ex rest)
  then show ?case by (cases ex) auto
qed

lemma filter_files_strings:
  assumes "\<forall>ex \<in> set excludeKeywords. is_string (Some ex)"
  shows "filter_files excludeKeywords fs
     = Some (filter (\<lambda>f. \<not> (\<exists>s. JStr s \<in> set excludeKeywords
                               \<and> str_includes (file_meta f) (toLowerCase s))) fs)"
  by (induction fs) (simp_all add: some_excluded_strings [OF assms])

text \<open>
  C6, amended. When the store reports found, the list of exclusions is not empty and
  holds strings, the filter returns; no file it keeps, and no file of the reply, has an
  excluded term in the lower-cased name and description; and when it removes every
  file of a non-empty list, found becomes false and the reply is the cooperative
  fallback or "No matching footage found.".
\<close>

theorem negative_constraints_enforced:
  assumes "found searchRes" and "excludeKeywords \<noteq> []"
    and "files searchRes = Some original"
    and "\<forall>ex \<in> set excludeKeywords. is_string (Some ex)"
  shows "\<exists>kept filtered.
       negative_filter excludeKeywords searchRes = Some filtered
     \<and> files filtered = Some kept
     \<and> set kept \<subseteq> set original
     \<and> (\<forall>f \<in> set kept. \<forall>s. JStr s \<in> set excludeKeywords
            \<longrightarrow> \<not> str_includes (file_meta f) (toLowerCase s))
     \<and> (\<forall>f \<in> set (result_files (search_reply aiRes finalKeywords filtered)).
           \<forall>s. JStr s \<in> set excludeKeywords
            \<longrightarrow> \<not> str_includes (file_meta f) (toLowerCase s))
     \<and> found filtered = (kept \<noteq> [] \<or> original = [])
     \<and> (kept = [] \<and> original \<noteq> [] \<longrightarrow>
          search_reply aiRes finalKeywords filtered = cooperative_fallback finalKeywords
          \<or> content (search_reply aiRes finalKeywords filtered)
               = JStr ''{\"response\":\"No matching footage found.\",\"mood\":\"SAD\"}'')"
proof -
  let ?hit = "\<lambda>f. \<exists>s. JStr s \<in> set excludeKeywords \<and> str_includes (file_meta f) (toLowerCase s)"
  let ?kept = "filter (\<lambda>f. \<not> ?hit f) original"
  let ?filtered = "searchRes\<lparr>files := Some ?kept,
                              found := \<not> (length ?kept = 0 \<and> length original > 0)\<rparr>"
  have run: "negative_filter excludeKeywords searchRes = Some ?filtered"
    using assms(1-3) by (simp add: negative_filter_def filter_files_strings [OF assms(4)])
  have files: "result_files (search_reply aiRes finalKeywords ?filtered) = ?kept
      \<or> result_files (search_reply aiRes finalKeywords ?filtered) = []"
    by (simp add: search_reply_def result_files_def play_media_def cooperative_fallback_def)
  have clean: "\<forall>f \<in> set ?kept. \<forall>s. JStr s \<in> set excludeKeywords
            \<longrightarrow> \<not> str_includes (file_meta f) (toLowerCase s)"
    by auto
  have reported: "\<not> found ?filtered \<longrightarrow>
          search_reply aiRes finalKeywords ?filtered = cooperative_fallback finalKeywords
          \<or> content (search_reply aiRes finalKeywords ?filtered)
               = JStr ''{\"response\":\"No matching footage found.\",\"mood\":\"SAD\"}''"
    using no_footage_content [of ?filtered aiRes] by (simp add: search_reply_def)
  show ?thesis
    apply (rule exI [of _ ?kept], rule exI [of _ ?filtered])
    apply (intro conjI)
          apply (rule run)
         apply simp
        apply simp
       apply (rule clean)
    using files clean apply fastforce
    apply simp
    using reported apply auto
    done
qed

theorem negative_constraints_enforced_witness:
  "found two_files \<and> [JStr ''John''] \<noteq> [] \<and> files two_files = Some [beach, solo]
   \<and> (\<exists>kept filtered. negative_filter [JStr ''John''] two_files = Some filtered
          \<and> files filtered = Some kept \<and> beach \<notin> set kept)"
proof -
  have 1: "found two_files" and 2: "[JStr ''John''] \<noteq> []"
    and 3: "files two_files = Some [beach, solo]"
    and 4: "\<forall>ex \<in> set [JStr ''John'']. is_string (Some ex)"
    by (simp_all add: two_files_def)
  have 5: "str_includes (file_meta beach) (toLowerCase ''John'')" by code_simp
  from negative_constraints_enforced [OF 1 2 3 4] 5 1 2 3 show ?thesis by fastforce
qed

section \<open>Properties of the Standard mode\<close>

lemma run_ext_refl [simp]: "run_ext P w w"
  by (simp add: run_ext_def)

lemma run_ext_trans: "run_ext P w w' \<Longrightarrow> run_ext P w' w'' \<Longrightarrow> run_ext P w w''"
  by (auto simp: run_ext_def)

lemma run_ext_mono: "run_ext P w w' \<Longrightarrow> (\<And>e. P e \<Longrightarrow> Q e) \<Longrightarrow> run_ext Q w w'"
  by (auto simp: run_ext_def list_all_iff)


lemma run_ext_retry:
  "run_ext (\<lambda>e. e = Inference l \<or> (\<exists>d. e = Sleep d)) w (snd (fetchWithCognitiveRetry v l w))"
  by (simp add: run_ext_def retry_unfold after_defs split: sum.splits)

lemma run_ext_retry':
  assumes "fetchWithCognitiveRetry v l w = (r, w')" and "P (Inference l)" and "\<And>d. P (Sleep d)"
  shows "run_ext P w w'"
  using run_ext_mono [OF run_ext_retry [of l w v], of P] assms by auto

lemma run_ext_new_events:
  "run_ext P w w' \<Longrightarrow> list_all P (new_events w w')"
  by (auto simp: run_ext_def new_events_def)

lemma timekeeper_append:
  "timekeeper (pre @ es) acc w =
     (case timekeeper pre acc w of
        (Passed kept, w1) \<Rightarrow> timekeeper es kept w1
      | (g, w1) \<Rightarrow> (g, w1))"
proof (induction pre arbitrary: acc w)
  case Nil
  then show ?case by simp
next
  case (Cons entry pre)
  show ?case
    by (simp add: Cons.IH split: prod.splits option.splits gate.splits)
qed

lemma timekeeper_run_ext:
  "run_ext gate_event w (snd (timekeeper es acc w))"
proof (induction es arbitrary: acc w)
  case Nil
  then show ?case by simp
next
  case (Cons entry es)
  obtain r1 w1 where e1: "fetchWithCognitiveRetry valid_Timekeeper ''Timekeeper'' w = (r1, w1)"
    by (metis prod.collapse)
  obtain r2 w2 where e2: "fetchWithCognitiveRetry valid_Interceptor ''Interceptor'' w1 = (r2, w2)"
    by (metis prod.collapse)
  have s1: "run_ext gate_event w w1" using e1 by (auto intro: run_ext_retry')
  have s2: "run_ext gate_event w1 w2" using e2 by (auto intro: run_ext_retry')
  have s12: "run_ext gate_event w w2" using s1 s2 by (rule run_ext_trans)
  have k1: "run_ext gate_event w (snd (timekeeper es acc' w1))" for acc'
    using s1 Cons.IH by (rule run_ext_trans)
  have k2: "run_ext gate_event w (snd (timekeeper es acc' w2))" for acc'
    using s12 Cons.IH by (rule run_ext_trans)
  show ?case
  proof (cases "entry = JNull \<or> below_threshold (property entry ''importance'') = None
      \<or> below_threshold (property entry ''importance'') = Some True
      \<or> \<not> converts (property entry ''fact'')")
    case True
    then show ?thesis using Cons.IH by auto
  next
    case False
    then show ?thesis
      using k1 k2 s12 by (simp add: e1 e2 split: option.splits)
  qed
qed

lemma analyze_run_ext: "run_ext gate_event w (snd (analyze w))"
  by (auto simp: analyze_def split: prod.splits option.splits intro: run_ext_retry')

lemma below_threshold_number [simp]:
  "below_threshold (Some (JNum m)) = Some (m < 4)"
  by (simp add: below_threshold_def converts_def less_than_def)

lemma timekeeper_bypass:
  assumes "\<forall>e \<in> set es. \<exists>m. property e ''importance'' = Some (JNum m) \<and> m < 4"
  shows "timekeeper es acc u = (Passed (acc @ es), u)"
  using assms
proof (induction es arbitrary: acc)
  case Nil
  then show ?case by simp
next
  case (Cons e es)
  then obtain m where m: "property e ''importance'' = Some (JNum m)" "m < 4" by auto
  then have "e \<noteq> JNull" by auto
  with m Cons show ?case by simp
qed

lemma interceptor_response:
  assumes "fst (fetchWithCognitiveRetry valid_Interceptor ''Interceptor'' w) = Some r"
  shows "truthy (property (parsed r) ''response'')"
proof -
  from retry_cases [of valid_Interceptor w "''Interceptor''"] assms
  consider i where "outcome valid_Interceptor w i = Inr r" | "r = safe_mode" by auto
  then show ?thesis
  proof cases
    case 1
    from attempt_Inr [OF 1 [unfolded outcome_def]] show ?thesis
      by (auto simp: valid_Interceptor_def reading_def split: if_splits)
  next
    case 2
    then show ?thesis by (simp add: safe_mode_def)
  qed
qed

text \<open>
  C5. In Standard mode, let the entries of the analysis be a list, and let the
  Timekeeper loop reach an entry of importance 4 or more with a printable fact (the
  entries before it pass; their importance is a number, a boolean, \<open>null\<close> or absent),
  and let the verdict on it not be valid. Then \<open>processMemoryChat\<close> returns the
  interception reply: the response of the Interceptor call, the mood CURIOUS and no
  roots. After the logging of the input, the run consists of calls to the inference
  service for the analysis, the Timekeeper and the Interceptor only: no retrieval, no
  generation, and no entry is sent to the store. Entries of importance below 4 pass the
  gate unchanged without any call.
\<close>

theorem timekeeper_short_circuit:
  assumes "fst (analyze (log_user_input w)) = analysis"
    and "property analysis ''entries'' = Some (JArr (pre @ entry # rest))"
    and "\<forall>e \<in> set pre. plain (property e ''importance'')"
    and "fst (timekeeper pre [] (snd (analyze (log_user_input w)))) = Passed kept"
    and "property entry ''importance'' = Some (JNum n)" and "4 \<le> n"
    and "converts (property entry ''fact'')"
    and "fst (fetchWithCognitiveRetry valid_Timekeeper ''Timekeeper''
               (snd (timekeeper pre [] (snd (analyze (log_user_input w)))))) = Some timeResult"
    and "\<not> truthy (property (parsed timeResult) ''valid'')"
  shows "(\<exists>intercept response.
            fst (processMemoryChat q False w) = Resolves (safePayload intercept)
          \<and> property (parsed intercept) ''response'' = Some response
          \<and> content (safePayload intercept)
              = JStr (stringify (JObj [(''response'', response), (''mood'', JStr ''CURIOUS''),
                                       (''roots'', JArr [])])))
     \<and> list_all gate_event
          (new_events (log_user_input w) (snd (processMemoryChat q False w)))
     \<and> ((\<forall>e \<in> set es. \<exists>m. property e ''importance'' = Some (JNum m) \<and> m < 4)
          \<longrightarrow> timekeeper es acc u = (Passed (acc @ es), u))"
proof -
  obtain w1 where a: "analyze (log_user_input w) = (analysis, w1)"
    using assms(1) by (cases "analyze (log_user_input w)") simp
  obtain w2 where b: "timekeeper pre [] w1 = (Passed kept, w2)"
    using assms(4) by (cases "timekeeper pre [] w1") (simp add: a)
  obtain w3 where c: "fetchWithCognitiveRetry valid_Timekeeper ''Timekeeper'' w2
      = (Some timeResult, w3)"
    using assms(8) by (cases "fetchWithCognitiveRetry valid_Timekeeper ''Timekeeper'' w2") (simp add: a b)
  obtain intercept w4 where d: "fetchWithCognitiveRetry valid_Interceptor ''Interceptor'' w3
      = (Some intercept, w4)"
    using retry_returns [of valid_Interceptor "''Interceptor''" w3]
    by (cases "fetchWithCognitiveRetry valid_Interceptor ''Interceptor'' w3") auto
  have entry: "entry \<noteq> JNull" "below_threshold (property entry ''importance'') = Some False"
    using assms(5,6) by auto
  have loop: "timekeeper (entry # rest) kept w2 = (Intercepted (safePayload intercept), w4)"
    by (simp add: entry c d assms(7) assms(9))
  have gate: "timekeeper_gate analysis w1 = (Intercepted (safePayload intercept), w4)"
    by (simp add: timekeeper_gate_def assms(2) timekeeper_append b loop del: timekeeper.simps)
  have run: "processMemoryChat q False w = (Resolves (safePayload intercept), w4)"
    by (simp add: processMemoryChat_def standard_mode_def a gate)
  have "truthy (property (parsed intercept) ''response'')"
    using interceptor_response [of w3 intercept] d by simp
  then obtain response where r: "property (parsed intercept) ''response'' = Some response"
    by (cases "property (parsed intercept) ''response''") auto
  have body: "content (safePayload intercept)
      = JStr (stringify (JObj [(''response'', response), (''mood'', JStr ''CURIOUS''),
                               (''roots'', JArr [])]))"
    by (simp add: safePayload_def message_def object_def r)
  have "run_ext gate_event (log_user_input w) w1"
    using analyze_run_ext [of "log_user_input w"] a by simp
  moreover have "run_ext gate_event w1 w2"
    using timekeeper_run_ext [of w1 pre "[]"] b by simp
  moreover have "run_ext gate_event w2 w3" "run_ext gate_event w3 w4"
    using c d by (auto intro: run_ext_retry')
  ultimately have "run_ext gate_event (log_user_input w) w4"
    by (blast intro: run_ext_trans)
  then have events: "list_all gate_event
      (new_events (log_user_input w) (snd (processMemoryChat q False w)))"
    by (simp add: run run_ext_new_events)
  show ?thesis
    using run r body events timekeeper_bypass [of es acc u] by auto
qed

theorem timekeeper_short_circuit_witness:
  "(\<exists>intercept. fst (processMemoryChat False False world_zoo) = Resolves (safePayload intercept)
       \<and> content (safePayload intercept)
           = JStr ''{\"response\":\"When did you go to the zoo?\",\"mood\":\"CURIOUS\",\"roots\":[]}'')
   \<and> list_all gate_event
        (new_events (log_user_input world_zoo) (snd (processMemoryChat False False world_zoo)))
   \<and> timekeeper [entry_red] [] world_zoo = (Passed [entry_red], world_zoo)"
proof -
  have 1: "fst (analyze (log_user_input world_zoo)) = analysis_zoo" by code_simp
  have 2: "property analysis_zoo ''entries'' = Some (JArr ([entry_red] @ entry_zoo # []))"
    by code_simp
  have p: "\<forall>e \<in> set [entry_red]. plain (property e ''importance'')"
    by (simp add: entry_red_def)
  have 3: "fst (timekeeper [entry_red] [] (snd (analyze (log_user_input world_zoo))))
      = Passed [entry_red]" by code_simp
  have 4: "property entry_zoo ''importance'' = Some (JNum 5)" by code_simp
  have f: "converts (property entry_zoo ''fact'')" by code_simp
  have 5: "fst (fetchWithCognitiveRetry valid_Timekeeper ''Timekeeper''
               (snd (timekeeper [entry_red] [] (snd (analyze (log_user_input world_zoo))))))
      = Some \<lparr>raw = Some (completion (stringify verdict_undated)), parsed = verdict_undated,
              cleaned = JStr (stringify verdict_undated)\<rparr>" by code_simp
  have 6: "\<not> truthy (property verdict_undated ''valid'')" by code_simp
  have 7: "\<forall>e \<in> set [entry_red]. \<exists>m. property e ''importance'' = Some (JNum m) \<and> m < 4"
    by (simp add: entry_red_def)
  have 8: "fst (processMemoryChat False False world_zoo)
      = Resolves (safePayload \<lparr>raw = Some (completion (stringify question_when)),
            parsed = question_when, cleaned = JStr (stringify question_when)\<rparr>)" by code_simp
  have 9: "content (safePayload \<lparr>raw = Some (completion (stringify question_when)),
            parsed = question_when, cleaned = JStr (stringify question_when)\<rparr>)
      = JStr ''{\"response\":\"When did you go to the zoo?\",\"mood\":\"CURIOUS\",\"roots\":[]}''"
    by code_simp
  from timekeeper_short_circuit [OF 1 2 p 3 4 _ f 5, of False "[entry_red]" "[]" world_zoo]
    6 7 8 9
  show ?thesis by auto
qed

lemma upper_char_idem: "upper_char (upper_char c) = upper_char c"
  by (auto simp: upper_char_def is_lower_def)

lemma toUpperCase_idem: "toUpperCase (toUpperCase s) = toUpperCase s"
  by (simp add: toUpperCase_def upper_char_idem)





lemma map_of_assign_same [simp]: "map_of (assign k v kvs) k = Some v"
  by (induction kvs) auto

lemma map_of_assign_other [simp]: "k' \<noteq> k \<Longrightarrow> map_of (assign k v kvs) k' = map_of kvs k'"
  by (induction kvs) auto

























end
